theory Spec2Isabelle
  imports Main "HOL-Library.Sublist"
begin

section \<open>The analyze controller of sabre (src/lib/controllers/analyze.js)\<close>

text \<open>
  The controller is one async function \<open>(env, args)\<close>. It validates the mode and the
  output format, substitutes trial credentials, and then runs a sequence of calls to its
  collaborators (fs, compiler, Profiler, client, report) inside one \<open>try\<close> block whose
  \<open>catch\<close> prints the error and calls \<open>process.exit(1)\<close>.

  The embedding is a function from the collaborators (a record \<open>world\<close> of functions,
  each returning \<open>Inl err\<close> where the JavaScript throws or rejects), the environment and
  the arguments to a \<open>run\<close>: the chronological list of everything the controller did
  (collaborator calls with their arguments, spinner calls, console lines) and the way
  the function ended. An \<open>await\<close> is sequential here: nothing else runs in between.
\<close>

subsection \<open>JavaScript values\<close>

text \<open>
  The values a command-line parser or \<open>process.env\<close> can put into \<open>args\<close> and \<open>env\<close>.
  Numbers are restricted to integers.
\<close>

datatype jsval = JUndefined | JNull | JBool bool | JNum int | JStr string

fun truthy :: "jsval \<Rightarrow> bool" where
  "truthy JUndefined = False"
| "truthy JNull = False"
| "truthy (JBool b) = b"
| "truthy (JNum n) = (n \<noteq> 0)"
| "truthy (JStr s) = (s \<noteq> [])"

text \<open>
  \<open>Array.prototype.includes\<close> on an array of string literals compares with
  SameValueZero: only a string equal to an element is included.
\<close>

fun array_includes :: "string list \<Rightarrow> jsval \<Rightarrow> bool" where
  "array_includes xs (JStr s) = (s \<in> set xs)"
| "array_includes xs v = False"

fun join :: "string \<Rightarrow> string list \<Rightarrow> string" where
  "join sep [] = []"
| "join sep [x] = x"
| "join sep (x # y # ys) = x @ sep @ join sep (y # ys)"

text \<open>\<open>xs[i]\<close> on an array: \<open>undefined\<close> out of range.\<close>

fun at_index :: "jsval list \<Rightarrow> nat \<Rightarrow> jsval" where
  "at_index [] i = JUndefined"
| "at_index (x # xs) 0 = x"
| "at_index (x # xs) (Suc i) = at_index xs i"

subsection \<open>Data\<close>

text \<open>A thrown value, as \<open>String(err)\<close> renders it.\<close>

type_synonym err = string

record env =
  ethAddress :: jsval
  password :: jsval
  apiUrl :: jsval

text \<open>\<open>positional\<close> is \<open>args._\<close>.\<close>

record args =
  positional :: "jsval list"
  mode :: jsval
  format :: jsval
  debug :: jsval

record resolver =
  working_directory :: string
  contracts_build_directory :: string

datatype snapshot = Snapshot string

text \<open>A set of sources: file name and text, in the order of \<open>Object.keys\<close>.\<close>

type_synonym sources = "(string \<times> string) list"

record solc_input =
  input_sources :: sources
  input_settings :: string

record compiled =
  contractName :: string
  functionHashes :: "(string \<times> string) list"
  compiled_rest :: string

datatype mxclient = MxClient jsval jsval jsval

text \<open>
  The request object built by \<open>client.getRequestData\<close>. The controller later assigns its
  properties \<open>sources\<close> and \<open>functionHashes\<close>; \<open>None\<close> is a property not yet assigned
  by the controller.
\<close>

record request_data =
  request_body :: string
  data_sources :: "sources option"
  data_functionHashes :: "(string \<times> string) list option"

type_synonym issues = "string list"

type_synonym finding = string

subsection \<open>What the controller does, as events\<close>

text \<open>
  Every \<open>console.log\<close> is recorded with the statement that printed it: the usage
  message of an invalid mode or format (lines 19, 27), a line of the dumps made when
  \<open>args.debug\<close> is truthy (lines 131-133, 185-188), the result of the run (the success
  message or the formatter's block, lines 198, 205), or the error of the \<open>catch\<close> block
  (line 212).
\<close>

datatype origin = Usage | Debug | Result | Failure

datatype event =
  ConsoleLog origin string
| SpinnerStart "string option"
| SpinnerStop
| SpinnerSucceed string
| SpinnerFail
| ReadFileSync string
| GetSolidityVersion string
| LoadSolcVersion jsval
| ResolveAllSources resolver "string list" snapshot
| GetSolcInput sources
| GetCompiledContracts solc_input snapshot string jsval
| Initialize jsval jsval jsval
| Authenticate mxclient
| GetRequestData compiled "string list" string args
| SubmitDataForAnalysis mxclient request_data
| AwaitAnalysisFinish mxclient string nat nat
| GetReport mxclient string
| FormatIssues request_data issues
| GetFormatter jsval
| Formatter "finding list"

subsection \<open>The collaborators\<close>

text \<open>
  Everything the controller requires: \<open>process.cwd\<close>, \<open>path\<close>, \<open>fs\<close>, \<open>chalk\<close>,
  \<open>util.inspect\<close>, the table \<open>releases\<close>, and the functions of \<open>compiler\<close>,
  \<open>Profiler\<close>, \<open>client\<close> and \<open>report\<close>. A function that can throw, or whose promise
  can reject, returns \<open>Inl err\<close> then. The controller calls each at most once in a run,
  so a function of the arguments covers every behaviour of a run.

  \<open>path_error v\<close> is the TypeError that \<open>path.resolve\<close> throws on the argument \<open>v\<close>
  when \<open>v\<close> is not a string. \<open>ora_enabled\<close> is the spinner's \<open>isEnabled\<close>: true when
  its stream is a terminal and the process is not run by a CI service. A disabled spinner
  never spins.
\<close>

record world =
  cwd :: string
  path_resolve :: "string \<Rightarrow> string \<Rightarrow> string"
  path_error :: "jsval \<Rightarrow> err"
  ora_enabled :: bool
  path_dirname :: "string \<Rightarrow> string"
  chalk_green :: "string \<Rightarrow> string"
  chalk_red :: "string \<Rightarrow> string"
  chalk_yellow :: "string \<Rightarrow> string"
  inspect_data :: "request_data \<Rightarrow> string"
  inspect_issues :: "issues \<Rightarrow> string"
  releases :: "string \<Rightarrow> jsval"
  readFileSync :: "string \<Rightarrow> err + string"
  getSolidityVersion :: "string \<Rightarrow> err + string"
  loadSolcVersion :: "jsval \<Rightarrow> err + (snapshot \<times> bool)"
  resolveAllSources :: "resolver \<Rightarrow> string list \<Rightarrow> snapshot \<Rightarrow> err + sources"
  getSolcInput :: "sources \<Rightarrow> err + solc_input"
  getCompiledContracts :: "solc_input \<Rightarrow> snapshot \<Rightarrow> string \<Rightarrow> jsval \<Rightarrow> err + compiled"
  initialize :: "jsval \<Rightarrow> jsval \<Rightarrow> jsval \<Rightarrow> err + mxclient"
  authenticate :: "mxclient \<Rightarrow> err + unit"
  getRequestData :: "compiled \<Rightarrow> string list \<Rightarrow> string \<Rightarrow> args \<Rightarrow> err + request_data"
  submitDataForAnalysis :: "mxclient \<Rightarrow> request_data \<Rightarrow> err + string"
  awaitAnalysisFinish :: "mxclient \<Rightarrow> string \<Rightarrow> nat \<Rightarrow> nat \<Rightarrow> err + unit"
  getReport :: "mxclient \<Rightarrow> string \<Rightarrow> err + issues"
  formatIssues :: "request_data \<Rightarrow> issues \<Rightarrow> err + finding list"
  getFormatter :: "jsval \<Rightarrow> err + (finding list \<Rightarrow> err + string)"

subsection \<open>State of a run\<close>

text \<open>
  \<open>trace\<close> is what has happened so far, \<open>isSpinning\<close> the property of the \<open>ora\<close>
  spinner that the \<open>catch\<close> block reads.
\<close>

record st =
  trace :: "event list"
  isSpinning :: bool

text \<open>
  How the async function ends: its promise resolves, the process exits through
  \<open>process.exit(code)\<close>, or it rejects with an error thrown outside the \<open>try\<close> block.
\<close>

datatype outcome = Resolved | Exited int | Rejected err

record run =
  events :: "event list"
  outcome :: outcome

definition emit :: "event \<Rightarrow> st \<Rightarrow> st" where
  "emit ev s = s\<lparr>trace := trace s @ [ev]\<rparr>"

definition console_log :: "origin \<Rightarrow> string \<Rightarrow> st \<Rightarrow> st" where
  "console_log org text s = emit (ConsoleLog org text) s"

text \<open>
  \<open>spinner.start(text)\<close>: an enabled spinner spins from now on; a disabled one stays
  as it is.
\<close>

definition spinner_start :: "world \<Rightarrow> string \<Rightarrow> st \<Rightarrow> st" where
  "spinner_start w text s =
     (emit (SpinnerStart (Some text)) s)\<lparr>isSpinning := (isSpinning s \<or> ora_enabled w)\<rparr>"

text \<open>\<open>spinner.start()\<close> without a text.\<close>

definition spinner_restart :: "world \<Rightarrow> st \<Rightarrow> st" where
  "spinner_restart w s =
     (emit (SpinnerStart None) s)\<lparr>isSpinning := (isSpinning s \<or> ora_enabled w)\<rparr>"

definition spinner_stop :: "st \<Rightarrow> st" where
  "spinner_stop s = (emit SpinnerStop s)\<lparr>isSpinning := False\<rparr>"

definition spinner_succeed :: "string \<Rightarrow> st \<Rightarrow> st" where
  "spinner_succeed text s = (emit (SpinnerSucceed text) s)\<lparr>isSpinning := False\<rparr>"

definition spinner_fail :: "st \<Rightarrow> st" where
  "spinner_fail s = (emit SpinnerFail s)\<lparr>isSpinning := False\<rparr>"

definition finish :: "outcome \<Rightarrow> st \<Rightarrow> run" where
  "finish out s = \<lparr>events = trace s, outcome = out\<rparr>"

text \<open>Lines 207-215: the \<open>catch\<close> block.\<close>

definition catch_block :: "world \<Rightarrow> err \<Rightarrow> st \<Rightarrow> run" where
  "catch_block w err s =
     (let s = (if isSpinning s then spinner_fail s else s);
          s = console_log Failure (chalk_red w err) s
      in finish (Exited 1) s)"

subsection \<open>The stages of the try block, last first\<close>

text \<open>The check mark U+2714 of the success message, in UTF-8.\<close>

definition check_mark :: string where
  "check_mark = [CHR 0xE2, CHR 0x9C, CHR 0x94]"

definition success_message :: "string \<Rightarrow> string \<Rightarrow> string" where
  "success_message file name =
     check_mark @ '' No errors/warnings found in '' @ file @ '' for contract: '' @ name"

text \<open>Lines 182-191: the response body, printed when \<open>args.debug\<close> is truthy.\<close>

definition debug_response :: "world \<Rightarrow> issues \<Rightarrow> st \<Rightarrow> st" where
  "debug_response w iss s =
     (let s = spinner_stop s;
          s = console_log Debug ''-------------------'' s;
          s = console_log Debug (''MythX Response Body:'' @ [CHR 0x0A]) s;
          s = console_log Debug (inspect_issues w iss) s;
          s = console_log Debug ''-------------------'' s
      in spinner_restart w s)"

text \<open>Lines 174-206: rendering.\<close>

definition render_output ::
  "world \<Rightarrow> args \<Rightarrow> string \<Rightarrow> solc_input \<Rightarrow> compiled \<Rightarrow> request_data \<Rightarrow> issues \<Rightarrow> st \<Rightarrow> run" where
  "render_output w a file input compiledData data0 iss s =
     (let s = spinner_start w ''Rendering output'' s;
          data = data0\<lparr>data_sources := Some (input_sources input)\<rparr>;
          data = data\<lparr>data_functionHashes := Some (functionHashes compiledData)\<rparr>;
          s = (if truthy (debug a) then debug_response w iss s else s);
          s = emit (FormatIssues data iss) s
      in case formatIssues w data iss of
           Inl err \<Rightarrow> catch_block w err s
         | Inr uniqueIssues \<Rightarrow>
             if length uniqueIssues = 0 then
               (let s = spinner_stop s;
                    s = console_log Result
                          (chalk_green w (success_message file (contractName compiledData))) s
                in finish Resolved s)
             else
               (let s = emit (GetFormatter (format a)) s
                in case getFormatter w (format a) of
                     Inl err \<Rightarrow> catch_block w err s
                   | Inr formatter \<Rightarrow>
                       (let s = emit (Formatter uniqueIssues) s
                        in case formatter uniqueIssues of
                             Inl err \<Rightarrow> catch_block w err s
                           | Inr output \<Rightarrow>
                               (let s = spinner_stop s;
                                    s = console_log Result output s
                                in finish Resolved s))))"

text \<open>Lines 168-172: retrieval.\<close>

definition retrieve_results ::
  "world \<Rightarrow> args \<Rightarrow> string \<Rightarrow> solc_input \<Rightarrow> compiled \<Rightarrow> request_data \<Rightarrow> mxclient \<Rightarrow> string
     \<Rightarrow> st \<Rightarrow> run" where
  "retrieve_results w a file input compiledData data mxClient uuid s =
     (let s = spinner_start w ''Retrieving analysis results'' s;
          s = emit (GetReport mxClient uuid) s
      in case getReport w mxClient uuid of
           Inl err \<Rightarrow> catch_block w err s
         | Inr iss \<Rightarrow>
             render_output w a file input compiledData data iss (spinner_stop s))"

text \<open>Lines 148-157: the initial delay and the timeout of the poll loop, in ms.\<close>

definition poll_params :: "jsval \<Rightarrow> nat \<times> nat" where
  "poll_params m =
     (if m = JStr ''quick'' then (20 * 1000, 180 * 1000) else (300 * 1000, 2400 * 1000))"

text \<open>Lines 146-166: polling.\<close>

definition await_analysis ::
  "world \<Rightarrow> args \<Rightarrow> string \<Rightarrow> solc_input \<Rightarrow> compiled \<Rightarrow> request_data \<Rightarrow> mxclient \<Rightarrow> string
     \<Rightarrow> st \<Rightarrow> run" where
  "await_analysis w a file input compiledData data mxClient uuid s =
     (let s = spinner_start w (''Analyzing '' @ contractName compiledData) s;
          (initialDelay, timeout) = poll_params (mode a);
          s = emit (AwaitAnalysisFinish mxClient uuid initialDelay timeout) s
      in case awaitAnalysisFinish w mxClient uuid initialDelay timeout of
           Inl err \<Rightarrow> catch_block w err s
         | Inr u \<Rightarrow>
             retrieve_results w a file input compiledData data mxClient uuid (spinner_stop s))"

text \<open>Lines 128-136: the request body, printed when \<open>args.debug\<close> is truthy.\<close>

definition debug_request :: "world \<Rightarrow> request_data \<Rightarrow> st \<Rightarrow> st" where
  "debug_request w data s =
     (let s = spinner_stop s;
          s = console_log Debug ''-------------------'' s;
          s = console_log Debug (''MythX Request Body:'' @ [CHR 0x0A]) s;
          s = console_log Debug (inspect_data w data) s
      in spinner_restart w s)"

text \<open>Lines 119-144: submission.\<close>

definition submit_data ::
  "world \<Rightarrow> args \<Rightarrow> string \<Rightarrow> string \<Rightarrow> string list \<Rightarrow> solc_input \<Rightarrow> compiled \<Rightarrow> mxclient
     \<Rightarrow> st \<Rightarrow> run" where
  "submit_data w a file solidityFilePath sourceList input compiledData mxClient s =
     (let s = spinner_start w ''Submitting data for analysis'' s;
          s = emit (GetRequestData compiledData sourceList solidityFilePath a) s
      in case getRequestData w compiledData sourceList solidityFilePath a of
           Inl err \<Rightarrow> catch_block w err s
         | Inr data \<Rightarrow>
             (let s = (if truthy (debug a) then debug_request w data s else s);
                  s = emit (SubmitDataForAnalysis mxClient data) s
              in case submitDataForAnalysis w mxClient data of
                   Inl err \<Rightarrow> catch_block w err s
                 | Inr uuid \<Rightarrow>
                     (let s = spinner_succeed
                                (''Analysis job with UUID '' @ chalk_yellow w uuid
                                   @ '' is now in progress'') s
                      in await_analysis w a file input compiledData data mxClient uuid s)))"

text \<open>Lines 111-117: authentication.\<close>

definition authenticate_user ::
  "world \<Rightarrow> args \<Rightarrow> jsval \<Rightarrow> jsval \<Rightarrow> jsval \<Rightarrow> string \<Rightarrow> string \<Rightarrow> string list \<Rightarrow> solc_input
     \<Rightarrow> compiled \<Rightarrow> st \<Rightarrow> run" where
  "authenticate_user w a url address pw file solidityFilePath sourceList input compiledData s =
     (let s = spinner_start w ''Authenticating user'' s;
          s = emit (Initialize url address pw) s
      in case initialize w url address pw of
           Inl err \<Rightarrow> catch_block w err s
         | Inr mxClient \<Rightarrow>
             (let s = emit (Authenticate mxClient) s
              in case authenticate w mxClient of
                   Inl err \<Rightarrow> catch_block w err s
                 | Inr u \<Rightarrow>
                     submit_data w a file solidityFilePath sourceList input compiledData
                       mxClient (spinner_stop s)))"

text \<open>Lines 89-109: compilation.\<close>

definition compile_sources ::
  "world \<Rightarrow> args \<Rightarrow> jsval \<Rightarrow> jsval \<Rightarrow> jsval \<Rightarrow> string \<Rightarrow> string \<Rightarrow> string \<Rightarrow> snapshot \<Rightarrow> sources
     \<Rightarrow> st \<Rightarrow> run" where
  "compile_sources w a url address pw file solidityFilePath version solcSnapshot
       resolvedSources s =
     (let sourceList = map fst resolvedSources;
          s = spinner_start w
                (if length sourceList = 1 then ''Compiling source'' else ''Compiling sources'') s;
          allSources = map (\<lambda>(file, body). (file, body)) resolvedSources;
          s = emit (GetSolcInput allSources) s
      in case getSolcInput w allSources of
           Inl err \<Rightarrow> catch_block w err s
         | Inr input \<Rightarrow>
             (let s = emit (GetCompiledContracts input solcSnapshot solidityFilePath
                              (at_index (positional a) 1)) s
              in case getCompiledContracts w input solcSnapshot solidityFilePath
                        (at_index (positional a) 1) of
                   Inl err \<Rightarrow> catch_block w err s
                 | Inr compiledData \<Rightarrow>
                     (let s = spinner_succeed
                                (''Compiled with solc v'' @ version @ '' successfully'') s
                      in authenticate_user w a url address pw file solidityFilePath sourceList
                           input compiledData s)))"

text \<open>Lines 76-87: import resolution.\<close>

definition resolve_imports ::
  "world \<Rightarrow> args \<Rightarrow> jsval \<Rightarrow> jsval \<Rightarrow> jsval \<Rightarrow> resolver \<Rightarrow> string \<Rightarrow> string \<Rightarrow> string
     \<Rightarrow> snapshot \<Rightarrow> st \<Rightarrow> run" where
  "resolve_imports w a url address pw rsv file solidityFilePath version solcSnapshot s =
     (let s = spinner_start w ''Resolving imports'' s;
          s = emit (ResolveAllSources rsv [solidityFilePath] solcSnapshot) s
      in case resolveAllSources w rsv [solidityFilePath] solcSnapshot of
           Inl err \<Rightarrow> catch_block w err s
         | Inr resolvedSources \<Rightarrow>
             compile_sources w a url address pw file solidityFilePath version solcSnapshot
               resolvedSources (spinner_stop s))"

text \<open>Lines 64-74: loading the compiler.\<close>

definition load_solc ::
  "world \<Rightarrow> args \<Rightarrow> jsval \<Rightarrow> jsval \<Rightarrow> jsval \<Rightarrow> resolver \<Rightarrow> string \<Rightarrow> string \<Rightarrow> string
     \<Rightarrow> st \<Rightarrow> run" where
  "load_solc w a url address pw rsv file solidityFilePath version s =
     (let s = spinner_start w (''Loading solc v'' @ version) s;
          s = emit (LoadSolcVersion (releases w version)) s
      in case loadSolcVersion w (releases w version) of
           Inl err \<Rightarrow> catch_block w err s
         | Inr (solcSnapshot, fromCache) \<Rightarrow>
             (let s = spinner_succeed
                        (if fromCache
                         then ''Loaded solc v'' @ version @ '' from local cache''
                         else ''Downloaded solc v'' @ version @ '' and saved to local cache'') s
              in resolve_imports w a url address pw rsv file solidityFilePath version
                   solcSnapshot s))"

text \<open>Lines 57-62: version detection.\<close>

definition detect_version ::
  "world \<Rightarrow> args \<Rightarrow> jsval \<Rightarrow> jsval \<Rightarrow> jsval \<Rightarrow> resolver \<Rightarrow> string \<Rightarrow> string \<Rightarrow> string
     \<Rightarrow> st \<Rightarrow> run" where
  "detect_version w a url address pw rsv file solidityFilePath solidityCode s =
     (let s = spinner_start w ''Detecting solidity version'' s;
          s = emit (GetSolidityVersion solidityCode) s
      in case getSolidityVersion w solidityCode of
           Inl err \<Rightarrow> catch_block w err s
         | Inr version \<Rightarrow>
             load_solc w a url address pw rsv file solidityFilePath version (spinner_stop s))"

text \<open>Lines 51-55: reading the input file.\<close>

definition read_input ::
  "world \<Rightarrow> args \<Rightarrow> jsval \<Rightarrow> jsval \<Rightarrow> jsval \<Rightarrow> resolver \<Rightarrow> string \<Rightarrow> string \<Rightarrow> st \<Rightarrow> run" where
  "read_input w a url address pw rsv file solidityFilePath s =
     (let s = spinner_start w ''Reading input file'' s;
          s = emit (ReadFileSync solidityFilePath) s
      in case readFileSync w solidityFilePath of
           Inl err \<Rightarrow> catch_block w err s
         | Inr solidityCode \<Rightarrow>
             detect_version w a url address pw rsv file solidityFilePath solidityCode
               (spinner_stop s))"

subsection \<open>The controller\<close>

definition modes :: "string list" where
  "modes = [''quick'', ''full'']"

definition formats :: "string list" where
  "formats = [''text'', ''stylish'', ''compact'', ''table'', ''html'', ''json'']"

text \<open>Lines 35-38: the credentials in use.\<close>

definition credentials :: "env \<Rightarrow> jsval \<times> jsval" where
  "credentials e =
     (if \<not> (truthy (ethAddress e) \<and> truthy (password e))
      then (JStr ''0x0000000000000000000000000000000000000000'', JStr ''trial'')
      else (ethAddress e, password e))"

text \<open>
  \<open>path.resolve\<close> throws a TypeError on an argument that is not a string; line 32 is
  outside the \<open>try\<close> block, so the function rejects with it.
\<close>

text \<open>Lines 13-216. \<open>process.exit\<close> ends the process: nothing after it runs.\<close>

definition analyze :: "world \<Rightarrow> env \<Rightarrow> args \<Rightarrow> run" where
  "analyze w e a =
     (let s = \<lparr>trace = [], isSpinning = False\<rparr>
      in if \<not> array_includes modes (mode a) then
           finish (Exited (- 1))
             (console_log Usage (''Invalid analysis mode. Available modes: '' @ join '', '' modes @ ''.'') s)
         else if \<not> array_includes formats (format a) then
           finish (Exited (- 1))
             (console_log Usage (''Invalid output format. Available formats: '' @ join '', '' formats @ ''.'') s)
         else
           (case at_index (positional a) 0 of
              JStr file \<Rightarrow>
                (let solidityFilePath = path_resolve w (cwd w) file;
                     solidityFileDir = path_dirname w solidityFilePath;
                     (address, pw) = credentials e;
                     rsv = \<lparr>working_directory = solidityFileDir,
                            contracts_build_directory = solidityFileDir\<rparr>
                 in read_input w a (apiUrl e) address pw rsv file solidityFilePath s)
            | _ \<Rightarrow> finish (Rejected (path_error w (at_index (positional a) 0))) s))"

subsection \<open>Reading a run\<close>

text \<open>The calls to collaborators, as opposed to spinner calls and console lines.\<close>

fun is_call :: "event \<Rightarrow> bool" where
  "is_call (ConsoleLog org text) = False"
| "is_call (SpinnerStart text) = False"
| "is_call SpinnerStop = False"
| "is_call (SpinnerSucceed text) = False"
| "is_call SpinnerFail = False"
| "is_call ev = True"

definition calls :: "run \<Rightarrow> event list" where
  "calls r = filter is_call (events r)"

fun console_text :: "event \<Rightarrow> string option" where
  "console_text (ConsoleLog org text) = Some text"
| "console_text ev = None"

text \<open>The lines written with \<open>console.log\<close>, in order.\<close>

definition console :: "run \<Rightarrow> string list" where
  "console r = List.map_filter console_text (events r)"

subsection \<open>The order of the calls\<close>

text \<open>The position of a collaborator call in the text of the \<open>try\<close> block.\<close>

fun step_no :: "event \<Rightarrow> nat" where
  "step_no (ReadFileSync p) = 0"
| "step_no (GetSolidityVersion code) = 1"
| "step_no (LoadSolcVersion release) = 2"
| "step_no (ResolveAllSources rsv files snap) = 3"
| "step_no (GetSolcInput srcs) = 4"
| "step_no (GetCompiledContracts input snap p name) = 5"
| "step_no (Initialize url address pw) = 6"
| "step_no (Authenticate mx) = 7"
| "step_no (GetRequestData c files p a) = 8"
| "step_no (SubmitDataForAnalysis mx data) = 9"
| "step_no (AwaitAnalysisFinish mx uuid d t) = 10"
| "step_no (GetReport mx uuid) = 11"
| "step_no (FormatIssues data iss) = 12"
| "step_no (GetFormatter name) = 13"
| "step_no (Formatter fs) = 14"
| "step_no ev = 0"

definition err_of :: "err + 'a \<Rightarrow> err option" where
  "err_of res = (case res of Inl err \<Rightarrow> Some err | Inr v \<Rightarrow> None)"

text \<open>
  What a call throws in the world \<open>w\<close>, if it throws. The formatter applied is the one
  that \<open>report.getFormatter(args.format)\<close> returned.
\<close>

fun thrown :: "world \<Rightarrow> args \<Rightarrow> event \<Rightarrow> err option" where
  "thrown w a (ReadFileSync p) = err_of (readFileSync w p)"
| "thrown w a (GetSolidityVersion code) = err_of (getSolidityVersion w code)"
| "thrown w a (LoadSolcVersion release) = err_of (loadSolcVersion w release)"
| "thrown w a (ResolveAllSources rsv files snap) = err_of (resolveAllSources w rsv files snap)"
| "thrown w a (GetSolcInput srcs) = err_of (getSolcInput w srcs)"
| "thrown w a (GetCompiledContracts input snap p name) =
     err_of (getCompiledContracts w input snap p name)"
| "thrown w a (Initialize url address pw) = err_of (initialize w url address pw)"
| "thrown w a (Authenticate mx) = err_of (authenticate w mx)"
| "thrown w a (GetRequestData c files p a') = err_of (getRequestData w c files p a')"
| "thrown w a (SubmitDataForAnalysis mx data) = err_of (submitDataForAnalysis w mx data)"
| "thrown w a (AwaitAnalysisFinish mx uuid d t) = err_of (awaitAnalysisFinish w mx uuid d t)"
| "thrown w a (GetReport mx uuid) = err_of (getReport w mx uuid)"
| "thrown w a (FormatIssues data iss) = err_of (formatIssues w data iss)"
| "thrown w a (GetFormatter name) = err_of (getFormatter w name)"
| "thrown w a (Formatter fs) =
     (case getFormatter w (format a) of Inl err \<Rightarrow> None | Inr formatter \<Rightarrow> err_of (formatter fs))"
| "thrown w a ev = None"

text \<open>A console line is quiet when it belongs to a debug dump.\<close>

fun quiet :: "event \<Rightarrow> bool" where
  "quiet (ConsoleLog org text) = (org = Debug)"
| "quiet ev = True"

text \<open>The line is the error that the call threw, as the catch block prints it.\<close>

definition failed_call :: "world \<Rightarrow> args \<Rightarrow> string \<Rightarrow> event \<Rightarrow> bool" where
  "failed_call w a line ev =
     (is_call ev \<and> map_option (chalk_red w) (thrown w a ev) = Some line)"

text \<open>
  The end of a failed run, read backwards: the error line, \<open>spinner.fail()\<close> when the
  spinner is enabled (and therefore spinning), and the call that threw the error printed.
\<close>

definition ends_in_failure :: "world \<Rightarrow> args \<Rightarrow> event list \<Rightarrow> bool" where
  "ends_in_failure w a evs =
     (case evs of
        ConsoleLog org line # rest \<Rightarrow>
          org = Failure \<and>
          (if ora_enabled w
           then (case rest of
                   SpinnerFail # ev # before \<Rightarrow> failed_call w a line ev
                 | _ \<Rightarrow> False)
           else (case rest of
                   ev # before \<Rightarrow> failed_call w a line ev
                 | _ \<Rightarrow> False))
      | _ \<Rightarrow> False)"

text \<open>The end of a completed run, read backwards: \<open>spinner.stop()\<close> and the result line.\<close>

fun ends_in_result :: "event list \<Rightarrow> bool" where
  "ends_in_result (ConsoleLog org text # SpinnerStop # before) = (org = Result)"
| "ends_in_result evs = False"

text \<open>
  The discipline of a run: the calls are made in the order of the text, each once; every
  call but the last returned; nothing but debug lines is printed before the last line; a
  run that resolves made its last call with success, at \<open>formatIssues\<close> or at the
  formatter, and ends with the result line; a run that exits with 1 ends with the error
  of its last call; a run that exits with -1 or rejects called nothing.
\<close>

definition protocol :: "world \<Rightarrow> args \<Rightarrow> run \<Rightarrow> bool" where
  "protocol w a r =
     (map step_no (calls r) = [0..<length (calls r)] \<and>
      list_all (\<lambda>ev. thrown w a ev = None) (butlast (calls r)) \<and>
      list_all quiet (butlast (events r)) \<and>
      (case outcome r of
         Resolved \<Rightarrow>
           (length (calls r) = 13 \<or> length (calls r) = 15) \<and>
           list_all (\<lambda>ev. thrown w a ev = None) (calls r) \<and>
           ends_in_result (rev (events r))
       | Exited c \<Rightarrow>
           (c = 1 \<and> ends_in_failure w a (rev (events r))) \<or>
           (c = - 1 \<and> calls r = [] \<and> length (events r) = 1)
       | Rejected err \<Rightarrow> events r = []))"

text \<open>The state in which a stage of the \<open>try\<close> block starts, \<open>k\<close> calls having returned.\<close>

definition on_track :: "world \<Rightarrow> args \<Rightarrow> nat \<Rightarrow> event list \<Rightarrow> bool" where
  "on_track w a k t =
     (map step_no (filter is_call t) = [0..<k] \<and>
      length (filter is_call t) = k \<and>
      list_all (\<lambda>ev. thrown w a ev = None) (filter is_call t) \<and>
      list_all quiet t)"

subsection \<open>The stages of the specification\<close>

datatype stage =
  VersionDetection | ToolchainAcquisition | ImportResolution | Compilation
| Authentication | Submission | Polling | ResultRetrieval | Rendering

text \<open>Reading the input file precedes the nine stages and belongs to none.\<close>

fun stage_of :: "event \<Rightarrow> stage option" where
  "stage_of (GetSolidityVersion code) = Some VersionDetection"
| "stage_of (LoadSolcVersion release) = Some ToolchainAcquisition"
| "stage_of (ResolveAllSources rsv files snap) = Some ImportResolution"
| "stage_of (GetSolcInput srcs) = Some Compilation"
| "stage_of (GetCompiledContracts input snap p name) = Some Compilation"
| "stage_of (Initialize url address pw) = Some Authentication"
| "stage_of (Authenticate mx) = Some Authentication"
| "stage_of (GetRequestData c files p a) = Some Submission"
| "stage_of (SubmitDataForAnalysis mx data) = Some Submission"
| "stage_of (AwaitAnalysisFinish mx uuid d t) = Some Polling"
| "stage_of (GetReport mx uuid) = Some ResultRetrieval"
| "stage_of (FormatIssues data iss) = Some Rendering"
| "stage_of (GetFormatter name) = Some Rendering"
| "stage_of (Formatter fs) = Some Rendering"
| "stage_of ev = None"

text \<open>The same table, by position of the call.\<close>

definition step_stage :: "nat \<Rightarrow> stage option" where
  "step_stage n =
     (if n = 0 then None
      else if n = 1 then Some VersionDetection
      else if n = 2 then Some ToolchainAcquisition
      else if n = 3 then Some ImportResolution
      else if n \<le> 5 then Some Compilation
      else if n \<le> 7 then Some Authentication
      else if n \<le> 9 then Some Submission
      else if n = 10 then Some Polling
      else if n = 11 then Some ResultRetrieval
      else Some Rendering)"

definition pipeline :: "stage list" where
  "pipeline =
     [VersionDetection, ToolchainAcquisition, ImportResolution, Compilation,
      Authentication, Submission, Polling, ResultRetrieval, Rendering]"

text \<open>The stages a run entered, in the order it entered them.\<close>

definition stages :: "run \<Rightarrow> stage list" where
  "stages r = remdups_adj (List.map_filter stage_of (events r))"

subsection \<open>Predicates on single events\<close>

text \<open>A poll is made with the parameters of the mode.\<close>

fun poll_as_mode :: "args \<Rightarrow> event \<Rightarrow> bool" where
  "poll_as_mode a (AwaitAnalysisFinish mx uuid d t) = ((d, t) = poll_params (mode a))"
| "poll_as_mode a ev = True"

text \<open>
  A client is initialized with the given URL and credentials, and the client that
  authenticates is the one so initialized.
\<close>

fun uses_credentials :: "world \<Rightarrow> jsval \<Rightarrow> jsval \<Rightarrow> jsval \<Rightarrow> event \<Rightarrow> bool" where
  "uses_credentials w url address pw (Initialize url' address' pw') =
     (url' = url \<and> address' = address \<and> pw' = pw)"
| "uses_credentials w url address pw (Authenticate mx) = (initialize w url address pw = Inr mx)"
| "uses_credentials w url address pw ev = True"



subsection \<open>Polling before retrieval\<close>

text \<open>The event is a poll for the job \<open>uuid\<close> of the client \<open>mx\<close>, and the poll resolved.\<close>

fun resolved_poll :: "world \<Rightarrow> mxclient \<Rightarrow> string \<Rightarrow> event \<Rightarrow> bool" where
  "resolved_poll w mx uuid (AwaitAnalysisFinish mx' uuid' d t) =
     (mx' = mx \<and> uuid' = uuid \<and> awaitAnalysisFinish w mx uuid d t = Inr ())"
| "resolved_poll w mx uuid ev = False"

text \<open>
  Reading the events backwards: every retrieval of a report has, among the events
  before it, a resolved poll for the same job.
\<close>

fun polled :: "world \<Rightarrow> event list \<Rightarrow> bool" where
  "polled w [] = True"
| "polled w (GetReport mx uuid # earlier) =
     (list_ex (resolved_poll w mx uuid) earlier \<and> polled w earlier)"
| "polled w (ev # earlier) = polled w earlier"

subsection \<open>The result of a run\<close>




subsection \<open>What a run shows apart from debugging\<close>

text \<open>
  The debug dumps are left out, and with them the calls \<open>spinner.stop()\<close> and
  \<open>spinner.start()\<close> that surround a dump; the \<open>args\<close> passed to
  \<open>client.getRequestData\<close> are compared up to \<open>args.debug\<close>.
\<close>

fun shown :: "event \<Rightarrow> event option" where
  "shown (ConsoleLog org line) = (if org = Debug then None else Some (ConsoleLog org line))"
| "shown (SpinnerStart None) = None"
| "shown SpinnerStop = None"
| "shown (GetRequestData cd files p a) =
     Some (GetRequestData cd files p (a\<lparr>debug := JUndefined\<rparr>))"
| "shown ev = Some ev"

definition same_shown :: "event list \<Rightarrow> event list \<Rightarrow> bool" where
  "same_shown t' t = (List.map_filter shown t' = List.map_filter shown t)"

definition same_result :: "run \<Rightarrow> run \<Rightarrow> bool" where
  "same_result r' r = (same_shown (events r') (events r) \<and> outcome r' = outcome r)"

subsection \<open>Where the arguments of a call come from\<close>

text \<open>The event is the submission by the client \<open>mx\<close> that returned the job \<open>uuid\<close>.\<close>

fun submitted :: "world \<Rightarrow> mxclient \<Rightarrow> string \<Rightarrow> event \<Rightarrow> bool" where
  "submitted w mx uuid (SubmitDataForAnalysis mx' data) =
     (mx' = mx \<and> submitDataForAnalysis w mx data = Inr uuid)"
| "submitted w mx uuid ev = False"

text \<open>
  Reading the events backwards: the file read is the first positional argument resolved
  against the working directory, and a poll is for a job that an earlier submission of
  the same client returned.
\<close>

fun sourced :: "world \<Rightarrow> args \<Rightarrow> event list \<Rightarrow> bool" where
  "sourced w a [] = True"
| "sourced w a (ReadFileSync p # earlier) =
     ((case at_index (positional a) 0 of
         JStr file \<Rightarrow> p = path_resolve w (cwd w) file
       | _ \<Rightarrow> False) \<and>
      sourced w a earlier)"
| "sourced w a (AwaitAnalysisFinish mx uuid d t # earlier) =
     (list_ex (submitted w mx uuid) earlier \<and> sourced w a earlier)"
| "sourced w a (ev # earlier) = sourced w a earlier"

text \<open>A line of a debug dump is printed only when \<open>args.debug\<close> is truthy.\<close>

fun debug_gated :: "args \<Rightarrow> event \<Rightarrow> bool" where
  "debug_gated a (ConsoleLog org line) = (org = Debug \<longrightarrow> truthy (debug a))"
| "debug_gated a ev = True"

subsection \<open>A concrete world\<close>

text \<open>
  Collaborators that all succeed on one contract \<open>Token\<close>, with a service that reports
  the same issue twice; the variants below make one collaborator fail.
\<close>

definition demo_world :: world where
  "demo_world =
     \<lparr>cwd = ''/work'',
      path_resolve = (\<lambda>dir file. dir @ ''/'' @ file),
      path_error = (\<lambda>v. ''TypeError [ERR_INVALID_ARG_TYPE]: The path argument must be of type string''),
      ora_enabled = True,
      path_dirname = (\<lambda>p. ''/work''),
      chalk_green = (\<lambda>text. text),
      chalk_red = (\<lambda>text. text),
      chalk_yellow = (\<lambda>text. text),
      inspect_data = request_body,
      inspect_issues = concat,
      releases = (\<lambda>v. JStr (''soljson-v'' @ v)),
      readFileSync = (\<lambda>p. Inr ''pragma solidity ^0.5.0; contract Token {}''),
      getSolidityVersion = (\<lambda>code. Inr ''0.5.7''),
      loadSolcVersion = (\<lambda>release. Inr (Snapshot ''0.5.7'', True)),
      resolveAllSources = (\<lambda>rsv files snap. Inr (map (\<lambda>f. (f, ''contract Token {}'')) files)),
      getSolcInput = (\<lambda>srcs. Inr \<lparr>input_sources = srcs, input_settings = ''{}''\<rparr>),
      getCompiledContracts =
        (\<lambda>input snap p name.
           Inr \<lparr>contractName = ''Token'', functionHashes = [], compiled_rest = []\<rparr>),
      initialize = (\<lambda>url address pw. Inr (MxClient url address pw)),
      authenticate = (\<lambda>c. Inr ()),
      getRequestData =
        (\<lambda>c files p a.
           Inr \<lparr>request_body = contractName c, data_sources = None,
                data_functionHashes = None\<rparr>),
      submitDataForAnalysis = (\<lambda>c data. Inr ''uuid-1''),
      awaitAnalysisFinish = (\<lambda>c uuid delay timeout. Inr ()),
      getReport = (\<lambda>c uuid. Inr [''SWC-101'', ''SWC-101'']),
      formatIssues = (\<lambda>data iss. Inr (remdups iss)),
      getFormatter = (\<lambda>name. Inr (\<lambda>fs. Inr (concat fs)))\<rparr>"

definition demo_env :: env where
  "demo_env = \<lparr>ethAddress = JStr ''0xabc'', password = JStr ''secret'',
                apiUrl = JStr ''https://api.mythx.io''\<rparr>"

definition demo_args :: args where
  "demo_args = \<lparr>positional = [JStr ''token.sol''], mode = JStr ''quick'',
                 format = JStr ''text'', debug = JUndefined\<rparr>"

text \<open>The pragma of the input file cannot be parsed.\<close>

definition bad_pragma_world :: world where
  "bad_pragma_world =
     demo_world\<lparr>getSolidityVersion := (\<lambda>code. Inl ''Error: Invalid Solidity version'')\<rparr>"

text \<open>The job stays pending and the poll loop times out.\<close>

definition pending_world :: world where
  "pending_world =
     demo_world\<lparr>awaitAnalysisFinish :=
                  (\<lambda>c uuid delay timeout. Inl ''Error: User or default timeout reached'')\<rparr>"


text \<open>Mapping the issues to source locations fails.\<close>

definition bad_report_world :: world where
  "bad_report_world =
     demo_world\<lparr>formatIssues := (\<lambda>data iss. Inl ''TypeError: Cannot read property'')\<rparr>"

definition trial_env :: env where
  "trial_env = \<lparr>ethAddress = JStr ''0xabc'', password = JUndefined,
                 apiUrl = JStr ''https://api.mythx.io''\<rparr>"

text \<open>The same failure with the output piped, so that the spinner is disabled.\<close>

definition piped_world :: world where
  "piped_world = bad_pragma_world\<lparr>ora_enabled := False\<rparr>"


definition full_args :: args where
  "full_args = demo_args\<lparr>mode := JStr ''full''\<rparr>"

definition debug_args :: args where
  "debug_args = demo_args\<lparr>debug := JBool True\<rparr>"

section \<open>Properties\<close>

subsection \<open>The state operations on an explicit state\<close>

lemma emit_lit:
  "emit ev \<lparr>trace = t, isSpinning = b\<rparr> = \<lparr>trace = t @ [ev], isSpinning = b\<rparr>"
  by (simp add: emit_def)

lemma console_log_lit:
  "console_log org text \<lparr>trace = t, isSpinning = b\<rparr> =
     \<lparr>trace = t @ [ConsoleLog org text], isSpinning = b\<rparr>"
  by (simp add: console_log_def emit_def)

lemma spinner_start_lit:
  "spinner_start w text \<lparr>trace = t, isSpinning = b\<rparr> =
     \<lparr>trace = t @ [SpinnerStart (Some text)], isSpinning = (b \<or> ora_enabled w)\<rparr>"
  by (simp add: spinner_start_def emit_def)

lemma spinner_restart_lit:
  "spinner_restart w \<lparr>trace = t, isSpinning = b\<rparr> =
     \<lparr>trace = t @ [SpinnerStart None], isSpinning = (b \<or> ora_enabled w)\<rparr>"
  by (simp add: spinner_restart_def emit_def)

lemma spinner_stop_lit:
  "spinner_stop \<lparr>trace = t, isSpinning = b\<rparr> = \<lparr>trace = t @ [SpinnerStop], isSpinning = False\<rparr>"
  by (simp add: spinner_stop_def emit_def)

lemma spinner_succeed_lit:
  "spinner_succeed text \<lparr>trace = t, isSpinning = b\<rparr> =
     \<lparr>trace = t @ [SpinnerSucceed text], isSpinning = False\<rparr>"
  by (simp add: spinner_succeed_def emit_def)

lemma spinner_fail_lit:
  "spinner_fail \<lparr>trace = t, isSpinning = b\<rparr> = \<lparr>trace = t @ [SpinnerFail], isSpinning = False\<rparr>"
  by (simp add: spinner_fail_def emit_def)

lemma catch_block_lit:
  "catch_block w err \<lparr>trace = t, isSpinning = b\<rparr> =
     \<lparr>events = t @ (if b then [SpinnerFail] else []) @ [ConsoleLog Failure (chalk_red w err)],
      outcome = Exited 1\<rparr>"
  by (simp add: catch_block_def spinner_fail_lit console_log_lit finish_def)

lemma debug_request_lit:
  "debug_request w data \<lparr>trace = t, isSpinning = b\<rparr> =
     \<lparr>trace = t @ [SpinnerStop, ConsoleLog Debug ''-------------------'',
                    ConsoleLog Debug (''MythX Request Body:'' @ [CHR 0x0A]),
                    ConsoleLog Debug (inspect_data w data), SpinnerStart None],
      isSpinning = ora_enabled w\<rparr>"
  by (simp add: debug_request_def spinner_stop_lit console_log_lit spinner_restart_lit)

lemma debug_response_lit:
  "debug_response w iss \<lparr>trace = t, isSpinning = b\<rparr> =
     \<lparr>trace = t @ [SpinnerStop, ConsoleLog Debug ''-------------------'',
                    ConsoleLog Debug (''MythX Response Body:'' @ [CHR 0x0A]),
                    ConsoleLog Debug (inspect_issues w iss),
                    ConsoleLog Debug ''-------------------'', SpinnerStart None],
      isSpinning = ora_enabled w\<rparr>"
  by (simp add: debug_response_def spinner_stop_lit console_log_lit spinner_restart_lit)

lemmas lits =
  emit_lit console_log_lit spinner_start_lit spinner_restart_lit spinner_stop_lit
  spinner_succeed_lit spinner_fail_lit catch_block_lit debug_request_lit debug_response_lit
  finish_def Let_def

lemmas stage_defs =
  render_output_def retrieve_results_def await_analysis_def submit_data_def
  authenticate_user_def compile_sources_def resolve_imports_def load_solc_def
  detect_version_def read_input_def

lemmas demo_defs =
  analyze_def stage_defs lits demo_world_def demo_env_def demo_args_def modes_def formats_def
  credentials_def poll_params_def

subsection \<open>The checks before the try block\<close>

lemma valid_mode: "array_includes modes m \<longleftrightarrow> m = JStr ''quick'' \<or> m = JStr ''full''"
  by (cases m) (auto simp: modes_def)

lemma valid_format:
  "array_includes formats f \<longleftrightarrow>
     f \<in> JStr ` {''text'', ''stylish'', ''compact'', ''table'', ''html'', ''json''}"
  by (cases f) (auto simp: formats_def)

lemma mode_checked:
  "ev \<in> set (events (analyze w e a)) \<Longrightarrow> is_call ev \<Longrightarrow> array_includes modes (mode a)"
  by (cases "array_includes modes (mode a)") (auto simp: analyze_def lits)

text \<open>
  C9. A mode argument that is not exactly \<open>quick\<close> or \<open>full\<close>: the run prints the list of
  available modes and calls \<open>process.exit(-1)\<close>; that line is all it does, so no file is
  read and no collaborator is called.
\<close>

theorem invalid_mode_exits:
  assumes "mode a \<noteq> JStr ''quick''" and "mode a \<noteq> JStr ''full''"
  shows "analyze w e a =
           \<lparr>events = [ConsoleLog Usage ''Invalid analysis mode. Available modes: quick, full.''],
            outcome = Exited (- 1)\<rparr> \<and>
         calls (analyze w e a) = []"
proof -
  have "\<not> array_includes modes (mode a)"
    using assms by (simp add: valid_mode)
  then have "analyze w e a =
      \<lparr>events = [ConsoleLog Usage ''Invalid analysis mode. Available modes: quick, full.''],
       outcome = Exited (- 1)\<rparr>"
    by (simp add: analyze_def modes_def lits)
  then show ?thesis
    by (simp add: calls_def)
qed

theorem invalid_mode_exits_witness:
  "analyze demo_world demo_env (demo_args\<lparr>mode := JStr ''deep''\<rparr>) =
     \<lparr>events = [ConsoleLog Usage ''Invalid analysis mode. Available modes: quick, full.''],
      outcome = Exited (- 1)\<rparr> \<and>
   calls (analyze demo_world demo_env (demo_args\<lparr>mode := JStr ''deep''\<rparr>)) = []"
  using invalid_mode_exits [of "demo_args\<lparr>mode := JStr ''deep''\<rparr>" demo_world demo_env]
  by (simp add: demo_args_def calls_def)

text \<open>
  C2. An output format that is none of the six names: the run ends with
  \<open>process.exit(-1)\<close> after one usage line (the one of the mode check when the mode is
  invalid too), before the input file is read and before any collaborator is called.
\<close>

theorem unknown_format_fails_fast:
  assumes "format a \<notin> JStr ` {''text'', ''stylish'', ''compact'', ''table'', ''html'', ''json''}"
  shows "outcome (analyze w e a) = Exited (- 1) \<and>
         calls (analyze w e a) = [] \<and>
         events (analyze w e a) =
           [ConsoleLog Usage
              (if array_includes modes (mode a)
               then ''Invalid output format. Available formats: text, stylish, compact, table, html, json.''
               else ''Invalid analysis mode. Available modes: quick, full.'')]"
proof -
  have "\<not> array_includes formats (format a)"
    using assms by (simp only: valid_format not_False_eq_True)
  then show ?thesis
    by (simp add: analyze_def modes_def formats_def lits calls_def)
qed

theorem unknown_format_fails_fast_witness:
  "outcome (analyze demo_world demo_env (demo_args\<lparr>format := JStr ''xml''\<rparr>)) = Exited (- 1) \<and>
   calls (analyze demo_world demo_env (demo_args\<lparr>format := JStr ''xml''\<rparr>)) = [] \<and>
   events (analyze demo_world demo_env (demo_args\<lparr>format := JStr ''xml''\<rparr>)) =
     [ConsoleLog Usage
        ''Invalid output format. Available formats: text, stylish, compact, table, html, json.'']"
  using unknown_format_fails_fast [of "demo_args\<lparr>format := JStr ''xml''\<rparr>" demo_world demo_env]
  by (simp add: demo_args_def modes_def)

subsection \<open>The parameters of the poll loop\<close>

lemma render_output_poll:
  "list_all (poll_as_mode a) (trace s) \<Longrightarrow>
   list_all (poll_as_mode a) (events (render_output w a file input cd data iss s))"
  by (cases s) (simp add: render_output_def lits split: sum.split)

lemma retrieve_results_poll:
  "list_all (poll_as_mode a) (trace s) \<Longrightarrow>
   list_all (poll_as_mode a) (events (retrieve_results w a file input cd data mx uuid s))"
  by (cases s) (simp add: retrieve_results_def lits render_output_poll split: sum.split)

lemma await_analysis_poll:
  "list_all (poll_as_mode a) (trace s) \<Longrightarrow>
   list_all (poll_as_mode a) (events (await_analysis w a file input cd data mx uuid s))"
  by (cases s)
     (simp add: await_analysis_def lits retrieve_results_poll split: sum.split prod.split)

lemma submit_data_poll:
  "list_all (poll_as_mode a) (trace s) \<Longrightarrow>
   list_all (poll_as_mode a) (events (submit_data w a file p sl input cd mx s))"
  by (cases s) (simp add: submit_data_def lits await_analysis_poll split: sum.split)

lemma authenticate_user_poll:
  "list_all (poll_as_mode a) (trace s) \<Longrightarrow>
   list_all (poll_as_mode a) (events (authenticate_user w a url ad pw file p sl input cd s))"
  by (cases s) (simp add: authenticate_user_def lits submit_data_poll split: sum.split)

lemma compile_sources_poll:
  "list_all (poll_as_mode a) (trace s) \<Longrightarrow>
   list_all (poll_as_mode a) (events (compile_sources w a url ad pw file p v snap rs s))"
  by (cases s) (simp add: compile_sources_def lits authenticate_user_poll split: sum.split)

lemma resolve_imports_poll:
  "list_all (poll_as_mode a) (trace s) \<Longrightarrow>
   list_all (poll_as_mode a) (events (resolve_imports w a url ad pw rsv file p v snap s))"
  by (cases s) (simp add: resolve_imports_def lits compile_sources_poll split: sum.split)

lemma load_solc_poll:
  "list_all (poll_as_mode a) (trace s) \<Longrightarrow>
   list_all (poll_as_mode a) (events (load_solc w a url ad pw rsv file p v s))"
  by (cases s) (simp add: load_solc_def lits resolve_imports_poll split: sum.split prod.split)

lemma detect_version_poll:
  "list_all (poll_as_mode a) (trace s) \<Longrightarrow>
   list_all (poll_as_mode a) (events (detect_version w a url ad pw rsv file p code s))"
  by (cases s) (simp add: detect_version_def lits load_solc_poll split: sum.split)

lemma read_input_poll:
  "list_all (poll_as_mode a) (trace s) \<Longrightarrow>
   list_all (poll_as_mode a) (events (read_input w a url ad pw rsv file p s))"
  by (cases s) (simp add: read_input_def lits detect_version_poll split: sum.split)

lemma analyze_poll: "list_all (poll_as_mode a) (events (analyze w e a))"
  by (simp add: analyze_def lits read_input_poll split: jsval.split prod.split)

lemma demo_run:
  "analyze demo_world demo_env demo_args =
     \<lparr>events =
        [SpinnerStart (Some ''Reading input file''),
         ReadFileSync ''/work/token.sol'',
         SpinnerStop,
         SpinnerStart (Some ''Detecting solidity version''),
         GetSolidityVersion ''pragma solidity ^0.5.0; contract Token {}'',
         SpinnerStop,
         SpinnerStart (Some ''Loading solc v0.5.7''),
         LoadSolcVersion (JStr ''soljson-v0.5.7''),
         SpinnerSucceed ''Loaded solc v0.5.7 from local cache'',
         SpinnerStart (Some ''Resolving imports''),
         ResolveAllSources
           \<lparr>working_directory = ''/work'', contracts_build_directory = ''/work''\<rparr>
           [''/work/token.sol''] (Snapshot ''0.5.7''),
         SpinnerStop,
         SpinnerStart (Some ''Compiling source''),
         GetSolcInput [(''/work/token.sol'', ''contract Token {}'')],
         GetCompiledContracts
           \<lparr>input_sources = [(''/work/token.sol'', ''contract Token {}'')],
            input_settings = ''{}''\<rparr>
           (Snapshot ''0.5.7'') ''/work/token.sol'' JUndefined,
         SpinnerSucceed ''Compiled with solc v0.5.7 successfully'',
         SpinnerStart (Some ''Authenticating user''),
         Initialize (JStr ''https://api.mythx.io'') (JStr ''0xabc'') (JStr ''secret''),
         Authenticate (MxClient (JStr ''https://api.mythx.io'') (JStr ''0xabc'') (JStr ''secret'')),
         SpinnerStop,
         SpinnerStart (Some ''Submitting data for analysis''),
         GetRequestData
           \<lparr>contractName = ''Token'', functionHashes = [], compiled_rest = []\<rparr>
           [''/work/token.sol''] ''/work/token.sol'' demo_args,
         SubmitDataForAnalysis
           (MxClient (JStr ''https://api.mythx.io'') (JStr ''0xabc'') (JStr ''secret''))
           \<lparr>request_body = ''Token'', data_sources = None, data_functionHashes = None\<rparr>,
         SpinnerSucceed ''Analysis job with UUID uuid-1 is now in progress'',
         SpinnerStart (Some ''Analyzing Token''),
         AwaitAnalysisFinish
           (MxClient (JStr ''https://api.mythx.io'') (JStr ''0xabc'') (JStr ''secret''))
           ''uuid-1'' 20000 180000,
         SpinnerStop,
         SpinnerStart (Some ''Retrieving analysis results''),
         GetReport (MxClient (JStr ''https://api.mythx.io'') (JStr ''0xabc'') (JStr ''secret''))
           ''uuid-1'',
         SpinnerStop,
         SpinnerStart (Some ''Rendering output''),
         FormatIssues
           \<lparr>request_body = ''Token'',
            data_sources = Some [(''/work/token.sol'', ''contract Token {}'')],
            data_functionHashes = Some []\<rparr>
           [''SWC-101'', ''SWC-101''],
         GetFormatter (JStr ''text''),
         Formatter [''SWC-101''],
         SpinnerStop,
         ConsoleLog Result ''SWC-101''],
      outcome = Resolved\<rparr>"
  by (simp add: demo_defs)

subsection \<open>The discipline of every run\<close>

lemma upt_lits:
  "[0..<1] = [0::nat]" "[0..<2] = [0::nat, 1]" "[0..<3] = [0::nat, 1, 2]"
  "[0..<4] = [0::nat, 1, 2, 3]" "[0..<5] = [0::nat, 1, 2, 3, 4]"
  "[0..<6] = [0::nat, 1, 2, 3, 4, 5]" "[0..<7] = [0::nat, 1, 2, 3, 4, 5, 6]"
  "[0..<8] = [0::nat, 1, 2, 3, 4, 5, 6, 7]" "[0..<9] = [0::nat, 1, 2, 3, 4, 5, 6, 7, 8]"
  "[0..<10] = [0::nat, 1, 2, 3, 4, 5, 6, 7, 8, 9]"
  "[0..<11] = [0::nat, 1, 2, 3, 4, 5, 6, 7, 8, 9, 10]"
  "[0..<12] = [0::nat, 1, 2, 3, 4, 5, 6, 7, 8, 9, 10, 11]"
  "[0..<13] = [0::nat, 1, 2, 3, 4, 5, 6, 7, 8, 9, 10, 11, 12]"
  "[0..<14] = [0::nat, 1, 2, 3, 4, 5, 6, 7, 8, 9, 10, 11, 12, 13]"
  "[0..<15] = [0::nat, 1, 2, 3, 4, 5, 6, 7, 8, 9, 10, 11, 12, 13, 14]"
  by (simp_all add: upt_rec)

lemma protocol_lit:
  "protocol w a \<lparr>events = evs, outcome = out\<rparr> =
     (map step_no (filter is_call evs) = [0..<length (filter is_call evs)] \<and>
      list_all (\<lambda>ev. thrown w a ev = None) (butlast (filter is_call evs)) \<and>
      list_all quiet (butlast evs) \<and>
      (case out of
         Resolved \<Rightarrow>
           (length (filter is_call evs) = 13 \<or> length (filter is_call evs) = 15) \<and>
           list_all (\<lambda>ev. thrown w a ev = None) (filter is_call evs) \<and>
           ends_in_result (rev evs)
       | Exited c \<Rightarrow>
           (c = 1 \<and> ends_in_failure w a (rev evs)) \<or>
           (c = - 1 \<and> filter is_call evs = [] \<and> length evs = 1)
       | Rejected err \<Rightarrow> evs = []))"
  by (cases out) (simp_all add: protocol_def calls_def)

lemmas proto =
  protocol_lit on_track_def err_of_def upt_lits butlast_append ends_in_failure_def
  failed_call_def

lemma render_output_protocol:
  "on_track w a 12 (trace s) \<Longrightarrow> \<not> isSpinning s \<Longrightarrow> protocol w a (render_output w a file input cd data iss s)"
  by (cases s) (simp add: render_output_def lits split: sum.split; simp add: proto)

lemma retrieve_results_protocol:
  "on_track w a 11 (trace s) \<Longrightarrow> \<not> isSpinning s \<Longrightarrow>
   protocol w a (retrieve_results w a file input cd data mx uuid s)"
  by (cases s)
     (simp add: retrieve_results_def lits split: sum.split;
      simp add: proto render_output_protocol)

lemma await_analysis_protocol:
  "on_track w a 10 (trace s) \<Longrightarrow> \<not> isSpinning s \<Longrightarrow>
   protocol w a (await_analysis w a file input cd data mx uuid s)"
  by (cases s)
     (simp add: await_analysis_def lits split: sum.split prod.split;
      simp add: proto retrieve_results_protocol)

lemma submit_data_protocol:
  "on_track w a 8 (trace s) \<Longrightarrow> \<not> isSpinning s \<Longrightarrow> protocol w a (submit_data w a file p sl input cd mx s)"
  by (cases s)
     (simp add: submit_data_def lits split: sum.split;
      simp add: proto await_analysis_protocol)

lemma authenticate_user_protocol:
  "on_track w a 6 (trace s) \<Longrightarrow> \<not> isSpinning s \<Longrightarrow>
   protocol w a (authenticate_user w a url ad pw file p sl input cd s)"
  by (cases s)
     (simp add: authenticate_user_def lits split: sum.split;
      simp add: proto submit_data_protocol)

lemma compile_sources_protocol:
  "on_track w a 4 (trace s) \<Longrightarrow> \<not> isSpinning s \<Longrightarrow>
   protocol w a (compile_sources w a url ad pw file p v snap rs s)"
  by (cases s)
     (simp add: compile_sources_def lits split: sum.split;
      simp add: proto authenticate_user_protocol)

lemma resolve_imports_protocol:
  "on_track w a 3 (trace s) \<Longrightarrow> \<not> isSpinning s \<Longrightarrow>
   protocol w a (resolve_imports w a url ad pw rsv file p v snap s)"
  by (cases s)
     (simp add: resolve_imports_def lits split: sum.split;
      simp add: proto compile_sources_protocol)

lemma load_solc_protocol:
  "on_track w a 2 (trace s) \<Longrightarrow> \<not> isSpinning s \<Longrightarrow> protocol w a (load_solc w a url ad pw rsv file p v s)"
  by (cases s)
     (simp add: load_solc_def lits split: sum.split prod.split;
      simp add: proto resolve_imports_protocol)

lemma detect_version_protocol:
  "on_track w a 1 (trace s) \<Longrightarrow> \<not> isSpinning s \<Longrightarrow>
   protocol w a (detect_version w a url ad pw rsv file p code s)"
  by (cases s)
     (simp add: detect_version_def lits split: sum.split;
      simp add: proto load_solc_protocol)

lemma read_input_protocol:
  "on_track w a 0 (trace s) \<Longrightarrow> \<not> isSpinning s \<Longrightarrow> protocol w a (read_input w a url ad pw rsv file p s)"
  by (cases s)
     (simp add: read_input_def lits split: sum.split;
      simp add: proto detect_version_protocol)

lemma analyze_protocol: "protocol w a (analyze w e a)"
  by (simp add: analyze_def lits split: jsval.split prod.split;
      simp add: proto read_input_protocol)

subsection \<open>Consequences of the discipline\<close>

lemma in_order_nth:
  "map f cs = [0..<length cs] \<Longrightarrow> i < length cs \<Longrightarrow> f (cs ! i) = i"
  by (metis add_0 nth_map nth_upt)

lemma in_order_less:
  assumes "map f cs = [0..<length cs]" and "x \<in> set cs"
  shows "f x < length cs"
proof -
  obtain i where "i < length cs" "cs ! i = x"
    using assms(2) by (auto simp: in_set_conv_nth)
  then show ?thesis
    using in_order_nth [OF assms(1)] by auto
qed

lemma in_order_last:
  assumes "map f cs = [0..<length cs]" and "cs \<noteq> []"
  shows "f (last cs) = length cs - 1"
proof -
  have "last cs = cs ! (length cs - 1)"
    using assms(2) by (simp add: last_conv_nth)
  then show ?thesis
    using in_order_nth [OF assms(1), of "length cs - 1"] assms(2) by simp
qed

lemma in_order_butlast:
  assumes "map f cs = [0..<length cs]" and "x \<in> set (butlast cs)"
  shows "f x < length cs - 1"
proof -
  obtain i where i: "i < length (butlast cs)" "butlast cs ! i = x"
    using assms(2) by (auto simp: in_set_conv_nth)
  then have "cs ! i = x" "i < length cs - 1"
    by (simp_all add: nth_butlast)
  then show ?thesis
    using in_order_nth [OF assms(1), of i] by simp
qed

lemma last_or_butlast: "x \<in> set cs \<Longrightarrow> x \<notin> set (butlast cs) \<Longrightarrow> cs \<noteq> [] \<and> x = last cs"
  by (metis append_butlast_last_id empty_iff empty_set rotate1.simps(2) set_ConsD set_rotate1)

lemma thrown_is_call: "thrown w a ev = Some err \<Longrightarrow> is_call ev"
  by (cases ev) simp_all

lemma ends_in_failure_shape:
  assumes r: "ends_in_failure w a (rev evs)"
  obtains before ev err where
    "evs = before @ ev # (if ora_enabled w then [SpinnerFail] else [])
             @ [ConsoleLog Failure (chalk_red w err)]"
    "is_call ev" "thrown w a ev = Some err"
proof -
  obtain x1 r1 where e1: "rev evs = x1 # r1"
    using r by (cases "rev evs") (simp_all add: ends_in_failure_def)
  obtain org line where x1: "x1 = ConsoleLog org line"
    using r e1 by (cases x1) (simp_all add: ends_in_failure_def)
  have org: "org = Failure"
    using r e1 x1 by (simp add: ends_in_failure_def)
  show thesis
  proof (cases "ora_enabled w")
    case True
    obtain x2 r2 where e2: "r1 = x2 # r2"
      using r e1 x1 True by (cases r1) (simp_all add: ends_in_failure_def)
    have x2: "x2 = SpinnerFail"
      using r e1 x1 True e2 by (cases x2) (simp_all add: ends_in_failure_def)
    obtain ev before where e3: "r2 = ev # before"
      using r e1 x1 True e2 x2 by (cases r2) (simp_all add: ends_in_failure_def)
    have "failed_call w a line ev"
      using r e1 x1 True e2 x2 e3 by (simp add: ends_in_failure_def)
    then obtain err where "is_call ev" "thrown w a ev = Some err" "line = chalk_red w err"
      by (auto simp: failed_call_def)
    moreover have "evs = rev before @ [ev, SpinnerFail, ConsoleLog org line]"
      using e1 x1 e2 x2 e3 by (simp add: rev_eq_Cons_iff)
    ultimately show thesis
      using that [of "rev before" ev err] True org by simp
  next
    case False
    obtain ev before where e2: "r1 = ev # before"
      using r e1 x1 False by (cases r1) (simp_all add: ends_in_failure_def)
    have "failed_call w a line ev"
      using r e1 x1 False e2 by (simp add: ends_in_failure_def)
    then obtain err where "is_call ev" "thrown w a ev = Some err" "line = chalk_red w err"
      by (auto simp: failed_call_def)
    moreover have "evs = rev before @ [ev, ConsoleLog org line]"
      using e1 x1 e2 by (simp add: rev_eq_Cons_iff)
    ultimately show thesis
      using that [of "rev before" ev err] False org by simp
  qed
qed

lemma catch_tail_calls:
  "\<not> is_call x \<Longrightarrow>
   filter is_call (before @ ev # (if c then [SpinnerFail] else []) @ [x]) =
     filter is_call (before @ [ev])"
  by simp

lemma catch_tail_butlast:
  "butlast (before @ ev # (if c then [SpinnerFail] else []) @ [x]) =
     before @ ev # (if c then [SpinnerFail] else [])"
  by (simp add: butlast_append)

text \<open>A call that throws is the last call of its run, and the run ends in the catch block.\<close>

lemma failed_call_last:
  assumes p: "protocol w a r" and ev: "ev \<in> set (events r)" and err: "thrown w a ev = Some err"
  shows "outcome r = Exited 1"
    and "\<exists>before. events r = before @ ev # (if ora_enabled w then [SpinnerFail] else [])
                                  @ [ConsoleLog Failure (chalk_red w err)] \<and>
           list_all quiet before \<and>
           (\<forall>ev' \<in> set before. is_call ev' \<longrightarrow> step_no ev' < step_no ev)"
proof -
  let ?cs = "calls r"
  have order: "map step_no ?cs = [0..<length ?cs]"
    and returned: "list_all (\<lambda>ev. thrown w a ev = None) (butlast ?cs)"
    and quiet: "list_all quiet (butlast (events r))"
    using p by (simp_all add: protocol_def)
  have in_cs: "ev \<in> set ?cs"
    using ev thrown_is_call [OF err] by (simp add: calls_def)
  have "ev \<notin> set (butlast ?cs)"
    using returned err by (auto simp: list_all_iff)
  from last_or_butlast [OF in_cs this] have last: "?cs \<noteq> []" "ev = last ?cs"
    by simp_all
  have fail: "outcome r = Exited 1 \<and> ends_in_failure w a (rev (events r))"
  proof (cases "outcome r")
    case Resolved
    then have "list_all (\<lambda>ev. thrown w a ev = None) ?cs"
      using p by (simp add: protocol_def)
    with in_cs err show ?thesis
      by (auto simp: list_all_iff)
  next
    case (Exited c)
    then show ?thesis
      using p last(1) by (auto simp: protocol_def)
  next
    case (Rejected x)
    then show ?thesis
      using p ev by (simp add: protocol_def)
  qed
  then show "outcome r = Exited 1"
    by simp
  from fail obtain before ev' err' where
    shape: "events r = before @ ev' # (if ora_enabled w then [SpinnerFail] else [])
                         @ [ConsoleLog Failure (chalk_red w err')]"
    and ev': "is_call ev'" "thrown w a ev' = Some err'"
    using ends_in_failure_shape by blast
  have cs: "?cs = filter is_call before @ [ev']"
    using shape ev' by (simp add: calls_def catch_tail_calls)
  with last have same: "ev' = ev"
    by simp
  with ev' err have "err' = err"
    by simp
  have "list_all quiet before"
    using quiet shape by (simp add: catch_tail_butlast)
  moreover have "\<forall>x \<in> set before. is_call x \<longrightarrow> step_no x < step_no ev"
  proof (intro ballI impI)
    fix x assume "x \<in> set before" "is_call x"
    then have "x \<in> set (butlast ?cs)"
      using cs by simp
    then have "step_no x < length ?cs - 1"
      using in_order_butlast [OF order] by blast
    moreover have "step_no ev = length ?cs - 1"
      using in_order_last [OF order last(1)] last(2) by simp
    ultimately show "step_no x < step_no ev"
      by simp
  qed
  ultimately show "\<exists>before. events r = before @ ev # (if ora_enabled w then [SpinnerFail] else [])
                                  @ [ConsoleLog Failure (chalk_red w err)] \<and>
           list_all quiet before \<and>
           (\<forall>ev' \<in> set before. is_call ev' \<longrightarrow> step_no ev' < step_no ev)"
    using shape same \<open>err' = err\<close> by blast
qed

text \<open>A call that returned before rendering is followed by the next call of the text.\<close>

lemma next_call:
  assumes p: "protocol w a r" and ev: "ev \<in> set (calls r)" and ok: "thrown w a ev = None"
    and early: "step_no ev < 12"
  shows "\<exists>ev' \<in> set (calls r). step_no ev' = Suc (step_no ev)"
proof -
  let ?cs = "calls r"
  have order: "map step_no ?cs = [0..<length ?cs]"
    using p by (simp add: protocol_def)
  obtain i where i: "i < length ?cs" "?cs ! i = ev"
    using ev by (auto simp: in_set_conv_nth)
  then have step: "step_no ev = i"
    using in_order_nth [OF order] by blast
  have "Suc i < length ?cs"
  proof (rule ccontr)
    assume "\<not> Suc i < length ?cs"
    with i have len: "length ?cs = Suc i" and ne: "?cs \<noteq> []"
      by auto
    then have last: "last ?cs = ev"
      using i by (simp add: last_conv_nth)
    show False
    proof (cases "outcome r")
      case Resolved
      then have "length ?cs = 13 \<or> length ?cs = 15"
        using p by (simp add: protocol_def)
      with len step early show False
        by auto
    next
      case (Exited c)
      with p ne have "ends_in_failure w a (rev (events r))"
        by (auto simp: protocol_def)
      then obtain before ev' err' where
        shape: "events r = before @ ev' # (if ora_enabled w then [SpinnerFail] else [])
                         @ [ConsoleLog Failure (chalk_red w err')]"
        and ev': "is_call ev'" "thrown w a ev' = Some err'"
        using ends_in_failure_shape by blast
      then have "?cs = filter is_call before @ [ev']"
        by (simp add: calls_def catch_tail_calls)
      with last have "ev' = ev"
        by simp
      with ev' ok show False
        by simp
    next
      case (Rejected x)
      with p ne show False
        by (simp add: protocol_def calls_def)
    qed
  qed
  then have "?cs ! Suc i \<in> set ?cs" "step_no (?cs ! Suc i) = Suc i"
    using in_order_nth [OF order] by simp_all
  with step show ?thesis
    by blast
qed

subsection \<open>Where the arguments of a call come from\<close>

lemma render_output_sourced:
  "sourced w a (rev (trace s)) \<Longrightarrow>
   sourced w a (rev (events (render_output w a file input cd data iss s)))"
  by (cases s) (simp add: render_output_def lits split: sum.split)

lemma retrieve_results_sourced:
  "sourced w a (rev (trace s)) \<Longrightarrow>
   sourced w a (rev (events (retrieve_results w a file input cd data mx uuid s)))"
  by (cases s) (simp add: retrieve_results_def lits render_output_sourced split: sum.split)

lemma await_analysis_sourced:
  "sourced w a (rev (trace s)) \<Longrightarrow> list_ex (submitted w mx uuid) (trace s) \<Longrightarrow>
   sourced w a (rev (events (await_analysis w a file input cd data mx uuid s)))"
  by (cases s) (simp add: await_analysis_def lits retrieve_results_sourced split: sum.split prod.split)

lemma submit_data_sourced:
  "sourced w a (rev (trace s)) \<Longrightarrow>
   sourced w a (rev (events (submit_data w a file p sl input cd mx s)))"
  by (cases s) (simp add: submit_data_def lits await_analysis_sourced split: sum.split)

lemma authenticate_user_sourced:
  "sourced w a (rev (trace s)) \<Longrightarrow>
   sourced w a (rev (events (authenticate_user w a url ad pw file p sl input cd s)))"
  by (cases s) (simp add: authenticate_user_def lits submit_data_sourced split: sum.split)

lemma compile_sources_sourced:
  "sourced w a (rev (trace s)) \<Longrightarrow>
   sourced w a (rev (events (compile_sources w a url ad pw file p v snap rs s)))"
  by (cases s) (simp add: compile_sources_def lits authenticate_user_sourced split: sum.split)

lemma resolve_imports_sourced:
  "sourced w a (rev (trace s)) \<Longrightarrow>
   sourced w a (rev (events (resolve_imports w a url ad pw rsv file p v snap s)))"
  by (cases s) (simp add: resolve_imports_def lits compile_sources_sourced split: sum.split)

lemma load_solc_sourced:
  "sourced w a (rev (trace s)) \<Longrightarrow>
   sourced w a (rev (events (load_solc w a url ad pw rsv file p v s)))"
  by (cases s) (simp add: load_solc_def lits resolve_imports_sourced split: sum.split prod.split)

lemma detect_version_sourced:
  "sourced w a (rev (trace s)) \<Longrightarrow>
   sourced w a (rev (events (detect_version w a url ad pw rsv file p code s)))"
  by (cases s) (simp add: detect_version_def lits load_solc_sourced split: sum.split)

lemma read_input_sourced:
  "sourced w a (rev (trace s)) \<Longrightarrow> at_index (positional a) 0 = JStr file \<Longrightarrow>
   sourced w a (rev (events (read_input w a url ad pw rsv file (path_resolve w (cwd w) file) s)))"
  by (cases s) (simp add: read_input_def lits detect_version_sourced split: sum.split)

lemma analyze_sourced: "sourced w a (rev (events (analyze w e a)))"
  by (simp add: analyze_def lits read_input_sourced split: jsval.split prod.split)

lemma sourced_tail: "sourced w a (ev # earlier) \<Longrightarrow> sourced w a earlier"
  by (cases ev) simp_all

lemma submitted_shape:
  assumes "submitted w mx uuid ev"
  obtains data where "ev = SubmitDataForAnalysis mx data"
    "submitDataForAnalysis w mx data = Inr uuid"
  using assms by (cases ev) simp_all

lemma poll_after_submit:
  assumes "sourced w a (rev evs)" and "AwaitAnalysisFinish mx uuid d t \<in> set evs"
  shows "\<exists>data. SubmitDataForAnalysis mx data \<in> set evs \<and>
           submitDataForAnalysis w mx data = Inr uuid"
  using assms
proof (induction evs rule: rev_induct)
  case Nil
  then show ?case by simp
next
  case (snoc x xs)
  from snoc.prems(1) have tail: "sourced w a (rev xs)"
    using sourced_tail by simp
  show ?case
  proof (cases "AwaitAnalysisFinish mx uuid d t \<in> set xs")
    case True
    from snoc.IH [OF tail True] show ?thesis
      by auto
  next
    case False
    with snoc.prems(2) have "x = AwaitAnalysisFinish mx uuid d t"
      by simp
    with snoc.prems(1) have "list_ex (submitted w mx uuid) xs"
      by (simp add: list_ex_iff)
    then obtain ev where ev: "ev \<in> set xs" "submitted w mx uuid ev"
      by (auto simp: list_ex_iff)
    from submitted_shape [OF ev(2)] obtain data where
      "ev = SubmitDataForAnalysis mx data" "submitDataForAnalysis w mx data = Inr uuid"
      by blast
    with ev(1) show ?thesis
      by auto
  qed
qed

lemma read_of_argument:
  assumes "sourced w a (rev evs)" and "ReadFileSync p \<in> set evs"
  shows "\<exists>path. at_index (positional a) 0 = JStr path \<and> p = path_resolve w (cwd w) path"
  using assms
proof (induction evs rule: rev_induct)
  case Nil
  then show ?case by simp
next
  case (snoc x xs)
  from snoc.prems(1) have tail: "sourced w a (rev xs)"
    using sourced_tail by simp
  show ?case
  proof (cases "ReadFileSync p \<in> set xs")
    case True
    from snoc.IH [OF tail True] show ?thesis .
  next
    case False
    with snoc.prems(2) have "x = ReadFileSync p"
      by simp
    with snoc.prems(1) show ?thesis
      by (cases "at_index (positional a) 0") simp_all
  qed
qed

text \<open>A position of the text is called at most once in a run.\<close>

lemma same_step:
  assumes p: "protocol w a r" and x: "x \<in> set (calls r)" and y: "y \<in> set (calls r)"
    and same: "step_no x = step_no y"
  shows "x = y"
proof -
  have order: "map step_no (calls r) = [0..<length (calls r)]"
    using p by (simp add: protocol_def)
  obtain i where i: "i < length (calls r)" "calls r ! i = x"
    using x by (auto simp: in_set_conv_nth)
  obtain j where j: "j < length (calls r)" "calls r ! j = y"
    using y by (auto simp: in_set_conv_nth)
  have "step_no x = i" "step_no y = j"
    using in_order_nth [OF order] i j by blast+
  with same i j show ?thesis
    by simp
qed

subsection \<open>How a run through the try block ends\<close>

lemma render_output_ends:
  "outcome (render_output w a file input cd data iss s) = Resolved \<or> outcome (render_output w a file input cd data iss s) = Exited 1"
  by (cases s) (simp add: render_output_def lits split: sum.split)

lemma retrieve_results_ends:
  "outcome (retrieve_results w a file input cd data mx uuid s) = Resolved \<or> outcome (retrieve_results w a file input cd data mx uuid s) = Exited 1"
  by (cases s) (simp add: retrieve_results_def lits render_output_ends split: sum.split)

lemma await_analysis_ends:
  "outcome (await_analysis w a file input cd data mx uuid s) = Resolved \<or> outcome (await_analysis w a file input cd data mx uuid s) = Exited 1"
  by (cases s) (simp add: await_analysis_def lits retrieve_results_ends split: sum.split prod.split)

lemma submit_data_ends:
  "outcome (submit_data w a file p sl input cd mx s) = Resolved \<or> outcome (submit_data w a file p sl input cd mx s) = Exited 1"
  by (cases s) (simp add: submit_data_def lits await_analysis_ends split: sum.split)

lemma authenticate_user_ends:
  "outcome (authenticate_user w a url ad pw file p sl input cd s) = Resolved \<or> outcome (authenticate_user w a url ad pw file p sl input cd s) = Exited 1"
  by (cases s) (simp add: authenticate_user_def lits submit_data_ends split: sum.split)

lemma compile_sources_ends:
  "outcome (compile_sources w a url ad pw file p v snap rs s) = Resolved \<or> outcome (compile_sources w a url ad pw file p v snap rs s) = Exited 1"
  by (cases s) (simp add: compile_sources_def lits authenticate_user_ends split: sum.split)

lemma resolve_imports_ends:
  "outcome (resolve_imports w a url ad pw rsv file p v snap s) = Resolved \<or> outcome (resolve_imports w a url ad pw rsv file p v snap s) = Exited 1"
  by (cases s) (simp add: resolve_imports_def lits compile_sources_ends split: sum.split)

lemma load_solc_ends:
  "outcome (load_solc w a url ad pw rsv file p v s) = Resolved \<or> outcome (load_solc w a url ad pw rsv file p v s) = Exited 1"
  by (cases s) (simp add: load_solc_def lits resolve_imports_ends split: sum.split prod.split)

lemma detect_version_ends:
  "outcome (detect_version w a url ad pw rsv file p code s) = Resolved \<or> outcome (detect_version w a url ad pw rsv file p code s) = Exited 1"
  by (cases s) (simp add: detect_version_def lits load_solc_ends split: sum.split)

lemma read_input_ends:
  "outcome (read_input w a url ad pw rsv file p s) = Resolved \<or> outcome (read_input w a url ad pw rsv file p s) = Exited 1"
  by (cases s) (simp add: read_input_def lits detect_version_ends split: sum.split)

lemma analyze_ends:
  assumes "array_includes modes (mode a)" and "array_includes formats (format a)"
    and "at_index (positional a) 0 = JStr path"
  shows "outcome (analyze w e a) = Resolved \<or> outcome (analyze w e a) = Exited 1"
  using assms by (simp add: analyze_def lits read_input_ends split: prod.split)

lemma analyze_refuses:
  assumes "\<not> (array_includes modes (mode a) \<and> array_includes formats (format a) \<and>
              (\<exists>path. at_index (positional a) 0 = JStr path))"
  shows "calls (analyze w e a) = [] \<and> outcome (analyze w e a) \<noteq> Resolved \<and>
         outcome (analyze w e a) \<noteq> Exited 1"
  using assms
  by (cases "at_index (positional a) 0") (auto simp: analyze_def lits calls_def)

subsection \<open>Debug dumps only under the debug flag\<close>

lemma render_output_gated:
  "list_all (debug_gated a) (trace s) \<Longrightarrow>
   list_all (debug_gated a) (events (render_output w a file input cd data iss s))"
  by (cases s) (simp add: render_output_def lits split: sum.split)

lemma retrieve_results_gated:
  "list_all (debug_gated a) (trace s) \<Longrightarrow>
   list_all (debug_gated a) (events (retrieve_results w a file input cd data mx uuid s))"
  by (cases s) (simp add: retrieve_results_def lits render_output_gated split: sum.split)

lemma await_analysis_gated:
  "list_all (debug_gated a) (trace s) \<Longrightarrow>
   list_all (debug_gated a) (events (await_analysis w a file input cd data mx uuid s))"
  by (cases s) (simp add: await_analysis_def lits retrieve_results_gated split: sum.split prod.split)

lemma submit_data_gated:
  "list_all (debug_gated a) (trace s) \<Longrightarrow>
   list_all (debug_gated a) (events (submit_data w a file p sl input cd mx s))"
  by (cases s) (simp add: submit_data_def lits await_analysis_gated split: sum.split)

lemma authenticate_user_gated:
  "list_all (debug_gated a) (trace s) \<Longrightarrow>
   list_all (debug_gated a) (events (authenticate_user w a url ad pw file p sl input cd s))"
  by (cases s) (simp add: authenticate_user_def lits submit_data_gated split: sum.split)

lemma compile_sources_gated:
  "list_all (debug_gated a) (trace s) \<Longrightarrow>
   list_all (debug_gated a) (events (compile_sources w a url ad pw file p v snap rs s))"
  by (cases s) (simp add: compile_sources_def lits authenticate_user_gated split: sum.split)

lemma resolve_imports_gated:
  "list_all (debug_gated a) (trace s) \<Longrightarrow>
   list_all (debug_gated a) (events (resolve_imports w a url ad pw rsv file p v snap s))"
  by (cases s) (simp add: resolve_imports_def lits compile_sources_gated split: sum.split)

lemma load_solc_gated:
  "list_all (debug_gated a) (trace s) \<Longrightarrow>
   list_all (debug_gated a) (events (load_solc w a url ad pw rsv file p v s))"
  by (cases s) (simp add: load_solc_def lits resolve_imports_gated split: sum.split prod.split)

lemma detect_version_gated:
  "list_all (debug_gated a) (trace s) \<Longrightarrow>
   list_all (debug_gated a) (events (detect_version w a url ad pw rsv file p code s))"
  by (cases s) (simp add: detect_version_def lits load_solc_gated split: sum.split)

lemma read_input_gated:
  "list_all (debug_gated a) (trace s) \<Longrightarrow>
   list_all (debug_gated a) (events (read_input w a url ad pw rsv file p s))"
  by (cases s) (simp add: read_input_def lits detect_version_gated split: sum.split)

lemma analyze_gated: "list_all (debug_gated a) (events (analyze w e a))"
  by (simp add: analyze_def lits read_input_gated split: jsval.split prod.split)

subsection \<open>The poll follows the submission\<close>

lemma eleventh_call:
  "is_call ev \<Longrightarrow> step_no ev = 10 \<Longrightarrow> \<exists>mx uuid d t. ev = AwaitAnalysisFinish mx uuid d t"
  by (cases ev) simp_all

lemma poll_of_mode:
  assumes "AwaitAnalysisFinish mx uuid d t \<in> set (events (analyze w e a))"
  shows "(mode a = JStr ''quick'' \<and> d = 20000 \<and> t = 180000) \<or>
         (mode a = JStr ''full'' \<and> d = 300000 \<and> t = 2400000)"
proof -
  have "poll_as_mode a (AwaitAnalysisFinish mx uuid d t)"
    using analyze_poll [of a w e] assms by (auto simp: list_all_iff)
  then have params: "(d, t) = poll_params (mode a)"
    by simp
  have "mode a = JStr ''quick'' \<or> mode a = JStr ''full''"
    using mode_checked [OF assms] by (simp add: valid_mode)
  with params show ?thesis
    by (auto simp: poll_params_def)
qed

lemma poll_of_submission:
  assumes sub: "SubmitDataForAnalysis mx data \<in> set (events (analyze w e a))"
    and ret: "submitDataForAnalysis w mx data = Inr uuid"
  shows "\<exists>d t. AwaitAnalysisFinish mx uuid d t \<in> set (events (analyze w e a))"
proof -
  let ?r = "analyze w e a"
  let ?sub = "SubmitDataForAnalysis mx data"
  have p: "protocol w a ?r"
    by (rule analyze_protocol)
  have in_calls: "?sub \<in> set (calls ?r)"
    using sub by (simp add: calls_def)
  have "thrown w a ?sub = None" "step_no ?sub < 12"
    using ret by (simp_all add: err_of_def)
  from next_call [OF p in_calls this] obtain ev where
    ev: "ev \<in> set (calls ?r)" "step_no ev = 10"
    by auto
  then obtain mx' uuid' d t where poll: "AwaitAnalysisFinish mx' uuid' d t \<in> set (events ?r)"
    using eleventh_call [of ev] by (auto simp: calls_def)
  from poll_after_submit [OF analyze_sourced poll] obtain data' where
    sub': "SubmitDataForAnalysis mx' data' \<in> set (events ?r)"
    and ret': "submitDataForAnalysis w mx' data' = Inr uuid'"
    by blast
  have "SubmitDataForAnalysis mx' data' \<in> set (calls ?r)"
    using sub' by (simp add: calls_def)
  from same_step [OF p this in_calls] have "mx' = mx" "data' = data"
    by simp_all
  with ret ret' have "uuid' = uuid"
    by simp
  with poll \<open>mx' = mx\<close> show ?thesis
    by blast
qed

text \<open>
  C1. The poll loop is invoked with the constants of the mode. Whenever
  \<open>client.submitDataForAnalysis\<close> has returned a job, \<open>client.awaitAnalysisFinish\<close> is
  called for that job of that client: with an initial delay of 20000 ms and a timeout of
  180000 ms when \<open>args.mode\<close> is \<open>quick\<close>, and with 300000 ms and 2400000 ms when it is
  \<open>full\<close>, the only other mode a run gets that far with. No poll is made with other
  parameters.
\<close>

theorem poll_constants:
  "(\<forall>mx data uuid.
      SubmitDataForAnalysis mx data \<in> set (events (analyze w e a)) \<and>
      submitDataForAnalysis w mx data = Inr uuid \<longrightarrow>
      (mode a = JStr ''quick'' \<and>
       AwaitAnalysisFinish mx uuid 20000 180000 \<in> set (events (analyze w e a))) \<or>
      (mode a = JStr ''full'' \<and>
       AwaitAnalysisFinish mx uuid 300000 2400000 \<in> set (events (analyze w e a)))) \<and>
   (\<forall>mx uuid initialDelay timeout.
      AwaitAnalysisFinish mx uuid initialDelay timeout \<in> set (events (analyze w e a)) \<longrightarrow>
      (mode a = JStr ''quick'' \<and> initialDelay = 20000 \<and> timeout = 180000) \<or>
      (mode a = JStr ''full'' \<and> initialDelay = 300000 \<and> timeout = 2400000))"
proof (intro conjI allI impI)
  fix mx data uuid
  assume "SubmitDataForAnalysis mx data \<in> set (events (analyze w e a)) \<and>
    submitDataForAnalysis w mx data = Inr uuid"
  then obtain d t where
    poll: "AwaitAnalysisFinish mx uuid d t \<in> set (events (analyze w e a))"
    using poll_of_submission by blast
  from poll_of_mode [OF poll] poll
  show "(mode a = JStr ''quick'' \<and>
       AwaitAnalysisFinish mx uuid 20000 180000 \<in> set (events (analyze w e a))) \<or>
      (mode a = JStr ''full'' \<and>
       AwaitAnalysisFinish mx uuid 300000 2400000 \<in> set (events (analyze w e a)))"
    by auto
next
  fix mx uuid initialDelay timeout
  assume "AwaitAnalysisFinish mx uuid initialDelay timeout \<in> set (events (analyze w e a))"
  then show "(mode a = JStr ''quick'' \<and> initialDelay = 20000 \<and> timeout = 180000) \<or>
      (mode a = JStr ''full'' \<and> initialDelay = 300000 \<and> timeout = 2400000)"
    by (rule poll_of_mode)
qed

theorem poll_constants_witness:
  "AwaitAnalysisFinish
     (MxClient (JStr ''https://api.mythx.io'') (JStr ''0xabc'') (JStr ''secret''))
     ''uuid-1'' 20000 180000 \<in> set (events (analyze demo_world demo_env demo_args)) \<and>
   mode demo_args = JStr ''quick'' \<and>
   AwaitAnalysisFinish
     (MxClient (JStr ''https://api.mythx.io'') (JStr ''0xabc'') (JStr ''secret''))
     ''uuid-1'' 300000 2400000 \<in> set (events (analyze demo_world demo_env full_args)) \<and>
   mode full_args = JStr ''full''"
proof -
  let ?mx = "MxClient (JStr ''https://api.mythx.io'') (JStr ''0xabc'') (JStr ''secret'')"
  let ?data = "\<lparr>request_body = ''Token'', data_sources = None, data_functionHashes = None\<rparr>"
  have returned: "submitDataForAnalysis demo_world ?mx ?data = Inr ''uuid-1''"
    by (simp add: demo_world_def)
  have quick: "mode demo_args = JStr ''quick''" and full: "mode full_args = JStr ''full''"
    by (simp_all add: demo_args_def full_args_def)
  have "SubmitDataForAnalysis ?mx ?data \<in> set (events (analyze demo_world demo_env demo_args))"
    by (simp add: demo_run)
  with returned quick poll_constants [of demo_world demo_env demo_args]
  have fast: "AwaitAnalysisFinish ?mx ''uuid-1'' 20000 180000
      \<in> set (events (analyze demo_world demo_env demo_args))"
    by auto
  have "SubmitDataForAnalysis ?mx ?data \<in> set (events (analyze demo_world demo_env full_args))"
    by (simp add: demo_defs full_args_def)
  with returned full poll_constants [of demo_world demo_env full_args]
  have "AwaitAnalysisFinish ?mx ''uuid-1'' 300000 2400000
      \<in> set (events (analyze demo_world demo_env full_args))"
    by auto
  with fast quick full show ?thesis
    by blast
qed

subsection \<open>Failures\<close>

lemma first_call: "is_call ev \<Longrightarrow> step_no ev < 1 \<Longrightarrow> \<exists>p. ev = ReadFileSync p"
  by (cases ev) simp_all

lemma bad_pragma_run:
  "analyze bad_pragma_world demo_env demo_args =
     \<lparr>events =
        [SpinnerStart (Some ''Reading input file''),
         ReadFileSync ''/work/token.sol'',
         SpinnerStop,
         SpinnerStart (Some ''Detecting solidity version''),
         GetSolidityVersion ''pragma solidity ^0.5.0; contract Token {}'',
         SpinnerFail,
         ConsoleLog Failure ''Error: Invalid Solidity version''],
      outcome = Exited 1\<rparr>"
  by (simp add: demo_defs bad_pragma_world_def)

lemma piped_run:
  "analyze piped_world demo_env demo_args =
     \<lparr>events =
        [SpinnerStart (Some ''Reading input file''),
         ReadFileSync ''/work/token.sol'',
         SpinnerStop,
         SpinnerStart (Some ''Detecting solidity version''),
         GetSolidityVersion ''pragma solidity ^0.5.0; contract Token {}'',
         ConsoleLog Failure ''Error: Invalid Solidity version''],
      outcome = Exited 1\<rparr>"
  by (simp add: demo_defs bad_pragma_world_def piped_world_def)

text \<open>
  C3. When \<open>compiler.getSolidityVersion\<close> throws, the run ends in the catch block:
  \<open>spinner.fail()\<close> if the spinner is enabled, then that error printed, then
  \<open>process.exit(1)\<close>. The only call made before the failed one is the read of the input
  file, so \<open>compiler.loadSolcVersion\<close>, \<open>client.authenticate\<close> and
  \<open>client.submitDataForAnalysis\<close> are never called.
\<close>

theorem version_error_aborts:
  assumes "GetSolidityVersion code \<in> set (events (analyze w e a))"
    and "getSolidityVersion w code = Inl err"
  shows "outcome (analyze w e a) = Exited 1 \<and>
         (\<exists>before. events (analyze w e a) =
            before @ GetSolidityVersion code # (if ora_enabled w then [SpinnerFail] else [])
              @ [ConsoleLog Failure (chalk_red w err)]) \<and>
         (\<forall>ev \<in> set (calls (analyze w e a)).
            (\<exists>p. ev = ReadFileSync p) \<or> ev = GetSolidityVersion code) \<and>
         (\<forall>release. LoadSolcVersion release \<notin> set (events (analyze w e a))) \<and>
         (\<forall>mx. Authenticate mx \<notin> set (events (analyze w e a))) \<and>
         (\<forall>mx data. SubmitDataForAnalysis mx data \<notin> set (events (analyze w e a)))"
proof -
  let ?r = "analyze w e a"
  have err: "thrown w a (GetSolidityVersion code) = Some err"
    using assms(2) by (simp add: err_of_def)
  note fatal = failed_call_last [OF analyze_protocol assms(1) err]
  from fatal(2) obtain before where
    shape: "events ?r =
      before @ GetSolidityVersion code # (if ora_enabled w then [SpinnerFail] else [])
        @ [ConsoleLog Failure (chalk_red w err)]"
    and earlier: "\<forall>ev' \<in> set before. is_call ev' \<longrightarrow> step_no ev' < step_no (GetSolidityVersion code)"
    by blast
  have only: "(\<exists>p. ev = ReadFileSync p) \<or> ev = GetSolidityVersion code"
    if "ev \<in> set (calls ?r)" for ev
  proof -
    from that shape have "is_call ev" "ev \<in> set before \<or> ev = GetSolidityVersion code"
      by (auto simp: calls_def split: if_splits)
    with earlier first_call [of ev] show ?thesis
      by auto
  qed
  have "LoadSolcVersion release \<notin> set (events ?r)" for release
    using only [of "LoadSolcVersion release"] by (auto simp: calls_def)
  moreover have "Authenticate mx \<notin> set (events ?r)" for mx
    using only [of "Authenticate mx"] by (auto simp: calls_def)
  moreover have "SubmitDataForAnalysis mx data \<notin> set (events ?r)" for mx data
    using only [of "SubmitDataForAnalysis mx data"] by (auto simp: calls_def)
  ultimately show ?thesis
    using fatal(1) shape only by blast
qed

theorem version_error_aborts_witness:
  "GetSolidityVersion ''pragma solidity ^0.5.0; contract Token {}''
     \<in> set (events (analyze bad_pragma_world demo_env demo_args)) \<and>
   getSolidityVersion bad_pragma_world ''pragma solidity ^0.5.0; contract Token {}'' =
     Inl ''Error: Invalid Solidity version'' \<and>
   outcome (analyze bad_pragma_world demo_env demo_args) = Exited 1 \<and>
   (\<forall>release. LoadSolcVersion release \<notin> set (events (analyze bad_pragma_world demo_env demo_args))) \<and>
   GetSolidityVersion ''pragma solidity ^0.5.0; contract Token {}''
     \<in> set (events (analyze piped_world demo_env demo_args)) \<and>
   outcome (analyze piped_world demo_env demo_args) = Exited 1 \<and>
   (\<forall>mx. Authenticate mx \<notin> set (events (analyze piped_world demo_env demo_args)))"
proof -
  have called: "GetSolidityVersion ''pragma solidity ^0.5.0; contract Token {}''
      \<in> set (events (analyze bad_pragma_world demo_env demo_args))"
    by (simp add: bad_pragma_run)
  have thrown: "getSolidityVersion bad_pragma_world ''pragma solidity ^0.5.0; contract Token {}'' =
      Inl ''Error: Invalid Solidity version''"
    by (simp add: bad_pragma_world_def demo_world_def)
  have called': "GetSolidityVersion ''pragma solidity ^0.5.0; contract Token {}''
      \<in> set (events (analyze piped_world demo_env demo_args))"
    by (simp add: piped_run)
  have thrown': "getSolidityVersion piped_world ''pragma solidity ^0.5.0; contract Token {}'' =
      Inl ''Error: Invalid Solidity version''"
    by (simp add: piped_world_def bad_pragma_world_def demo_world_def)
  show ?thesis
    using called thrown called' version_error_aborts [OF called thrown]
      version_error_aborts [OF called' thrown']
    by blast
qed

lemma bad_report_run:
  "analyze bad_report_world demo_env (demo_args\<lparr>debug := JBool True\<rparr>) =
     \<lparr>events =
        [SpinnerStart (Some ''Reading input file''),
         ReadFileSync ''/work/token.sol'',
         SpinnerStop,
         SpinnerStart (Some ''Detecting solidity version''),
         GetSolidityVersion ''pragma solidity ^0.5.0; contract Token {}'',
         SpinnerStop,
         SpinnerStart (Some ''Loading solc v0.5.7''),
         LoadSolcVersion (JStr ''soljson-v0.5.7''),
         SpinnerSucceed ''Loaded solc v0.5.7 from local cache'',
         SpinnerStart (Some ''Resolving imports''),
         ResolveAllSources
           \<lparr>working_directory = ''/work'', contracts_build_directory = ''/work''\<rparr>
           [''/work/token.sol''] (Snapshot ''0.5.7''),
         SpinnerStop,
         SpinnerStart (Some ''Compiling source''),
         GetSolcInput [(''/work/token.sol'', ''contract Token {}'')],
         GetCompiledContracts
           \<lparr>input_sources = [(''/work/token.sol'', ''contract Token {}'')],
            input_settings = ''{}''\<rparr>
           (Snapshot ''0.5.7'') ''/work/token.sol'' JUndefined,
         SpinnerSucceed ''Compiled with solc v0.5.7 successfully'',
         SpinnerStart (Some ''Authenticating user''),
         Initialize (JStr ''https://api.mythx.io'') (JStr ''0xabc'') (JStr ''secret''),
         Authenticate (MxClient (JStr ''https://api.mythx.io'') (JStr ''0xabc'') (JStr ''secret'')),
         SpinnerStop,
         SpinnerStart (Some ''Submitting data for analysis''),
         GetRequestData
           \<lparr>contractName = ''Token'', functionHashes = [], compiled_rest = []\<rparr>
           [''/work/token.sol''] ''/work/token.sol'' (demo_args\<lparr>debug := JBool True\<rparr>),
         SpinnerStop,
         ConsoleLog Debug ''-------------------'',
         ConsoleLog Debug (''MythX Request Body:'' @ [CHR 0x0A]),
         ConsoleLog Debug ''Token'',
         SpinnerStart None,
         SubmitDataForAnalysis
           (MxClient (JStr ''https://api.mythx.io'') (JStr ''0xabc'') (JStr ''secret''))
           \<lparr>request_body = ''Token'', data_sources = None, data_functionHashes = None\<rparr>,
         SpinnerSucceed ''Analysis job with UUID uuid-1 is now in progress'',
         SpinnerStart (Some ''Analyzing Token''),
         AwaitAnalysisFinish
           (MxClient (JStr ''https://api.mythx.io'') (JStr ''0xabc'') (JStr ''secret''))
           ''uuid-1'' 20000 180000,
         SpinnerStop,
         SpinnerStart (Some ''Retrieving analysis results''),
         GetReport (MxClient (JStr ''https://api.mythx.io'') (JStr ''0xabc'') (JStr ''secret''))
           ''uuid-1'',
         SpinnerStop,
         SpinnerStart (Some ''Rendering output''),
         SpinnerStop,
         ConsoleLog Debug ''-------------------'',
         ConsoleLog Debug (''MythX Response Body:'' @ [CHR 0x0A]),
         ConsoleLog Debug ''SWC-101SWC-101'',
         ConsoleLog Debug ''-------------------'',
         SpinnerStart None,
         FormatIssues
           \<lparr>request_body = ''Token'',
            data_sources = Some [(''/work/token.sol'', ''contract Token {}'')],
            data_functionHashes = Some []\<rparr>
           [''SWC-101'', ''SWC-101''],
         SpinnerFail,
         ConsoleLog Failure ''TypeError: Cannot read property''],
      outcome = Exited 1\<rparr>"
  by (simp add: demo_defs bad_report_world_def)

lemma no_console: "\<forall>ev \<in> set evs. console_text ev = None \<Longrightarrow> List.map_filter console_text evs = []"
  by (induction evs) (simp_all add: List.map_filter_simps)

lemma console_append:
  "List.map_filter console_text (xs @ ys) =
     List.map_filter console_text xs @ List.map_filter console_text ys"
  by (simp add: List.map_filter_def)

text \<open>
  C7, as the code has it. When a call of any stage throws, the run ends in the catch
  block: the error is printed and the process exits with status 1. The failed call is the
  last call of the run and every call before it belongs to an earlier position of the
  \<open>try\<close> block, so neither the failed stage nor a later one is invoked again. No result
  line (success message or formatter block) is printed. When \<open>args.debug\<close> is falsy the
  error is the only line printed; when it is truthy, the lines printed before the error
  are those of the debug dumps, among them the raw response body once it was retrieved.
\<close>

theorem stage_error_is_fatal:
  assumes "ev \<in> set (events (analyze w e a))" and "thrown w a ev = Some err"
  shows "outcome (analyze w e a) = Exited 1 \<and>
         (\<exists>before. events (analyze w e a) =
            before @ ev # (if ora_enabled w then [SpinnerFail] else [])
              @ [ConsoleLog Failure (chalk_red w err)] \<and>
            (\<forall>ev' \<in> set before. is_call ev' \<longrightarrow> step_no ev' < step_no ev) \<and>
            (\<forall>org line. ConsoleLog org line \<in> set before \<longrightarrow> org = Debug)) \<and>
         (\<forall>line. ConsoleLog Result line \<notin> set (events (analyze w e a))) \<and>
         (\<not> truthy (debug a) \<longrightarrow> console (analyze w e a) = [chalk_red w err])"
proof -
  let ?r = "analyze w e a"
  note fatal = failed_call_last [OF analyze_protocol assms]
  from fatal(2) obtain before where
    shape: "events ?r = before @ ev # (if ora_enabled w then [SpinnerFail] else [])
      @ [ConsoleLog Failure (chalk_red w err)]"
    and quiet: "list_all quiet before"
    and earlier: "\<forall>ev' \<in> set before. is_call ev' \<longrightarrow> step_no ev' < step_no ev"
    by blast
  have debug_only: "org = Debug" if "ConsoleLog org line \<in> set before" for org line
    using quiet that by (auto simp: list_all_iff)
  have call: "is_call ev"
    using assms(2) by (rule thrown_is_call)
  then have no_result: "ConsoleLog Result line \<notin> set (events ?r)" for line
    using shape debug_only [of Result line] by (auto split: if_splits)
  have silent: "console ?r = [chalk_red w err]" if off: "\<not> truthy (debug a)"
  proof -
    have "console_text x = None" if x: "x \<in> set before" for x
    proof (cases x)
      case (ConsoleLog org line)
      with x debug_only have "org = Debug"
        by blast
      moreover have "debug_gated a x"
        using analyze_gated [of a w e] x shape by (auto simp: list_all_iff)
      ultimately show ?thesis
        using off ConsoleLog by simp
    qed simp_all
    then have "List.map_filter console_text before = []"
      by (simp add: no_console)
    moreover have "console_text ev = None"
      using call by (cases ev) simp_all
    ultimately show ?thesis
      using shape by (simp add: console_def console_append List.map_filter_simps)
  qed
  show ?thesis
    using fatal(1) shape earlier debug_only no_result silent by blast
qed

theorem stage_error_is_fatal_witness:
  "GetSolidityVersion ''pragma solidity ^0.5.0; contract Token {}''
     \<in> set (events (analyze piped_world demo_env demo_args)) \<and>
   outcome (analyze piped_world demo_env demo_args) = Exited 1 \<and>
   console (analyze piped_world demo_env demo_args) = [''Error: Invalid Solidity version''] \<and>
   FormatIssues
     \<lparr>request_body = ''Token'',
      data_sources = Some [(''/work/token.sol'', ''contract Token {}'')],
      data_functionHashes = Some []\<rparr>
     [''SWC-101'', ''SWC-101'']
     \<in> set (events (analyze bad_report_world demo_env (demo_args\<lparr>debug := JBool True\<rparr>))) \<and>
   outcome (analyze bad_report_world demo_env (demo_args\<lparr>debug := JBool True\<rparr>)) = Exited 1 \<and>
   (\<forall>line. ConsoleLog Result line
      \<notin> set (events (analyze bad_report_world demo_env (demo_args\<lparr>debug := JBool True\<rparr>))))"
proof -
  let ?ev = "FormatIssues
     \<lparr>request_body = ''Token'',
      data_sources = Some [(''/work/token.sol'', ''contract Token {}'')],
      data_functionHashes = Some []\<rparr>
     [''SWC-101'', ''SWC-101'']"
  have called: "?ev \<in> set (events (analyze bad_report_world demo_env (demo_args\<lparr>debug := JBool True\<rparr>)))"
    by (simp add: bad_report_run)
  have thrown: "thrown bad_report_world (demo_args\<lparr>debug := JBool True\<rparr>) ?ev =
      Some ''TypeError: Cannot read property''"
    by (simp add: bad_report_world_def demo_world_def err_of_def)
  have called': "GetSolidityVersion ''pragma solidity ^0.5.0; contract Token {}''
      \<in> set (events (analyze piped_world demo_env demo_args))"
    by (simp add: piped_run)
  have thrown': "thrown piped_world demo_args
      (GetSolidityVersion ''pragma solidity ^0.5.0; contract Token {}'') =
      Some ''Error: Invalid Solidity version''"
    by (simp add: piped_world_def bad_pragma_world_def demo_world_def err_of_def)
  have off: "\<not> truthy (debug demo_args)"
    by (simp add: demo_args_def)
  have red: "chalk_red piped_world ''Error: Invalid Solidity version'' =
      ''Error: Invalid Solidity version''"
    by (simp add: piped_world_def bad_pragma_world_def demo_world_def)
  from stage_error_is_fatal [OF called' thrown'] off red
  have quiet: "outcome (analyze piped_world demo_env demo_args) = Exited 1 \<and>
      console (analyze piped_world demo_env demo_args) = [''Error: Invalid Solidity version'']"
    by simp
  show ?thesis
    using called called' quiet stage_error_is_fatal [OF called thrown] by blast
qed

text \<open>
  C7 as stated, without the restriction to runs where \<open>args.debug\<close> is falsy, does not
  hold. The run of \<open>bad_report_world\<close> with \<open>args.debug\<close> set fails at \<open>report.formatIssues\<close>
  and exits with status 1, after it has printed the list of issues that
  \<open>client.getReport\<close> returned.
\<close>

theorem failed_run_shows_findings:
  "thrown bad_report_world debug_args
     (FormatIssues
        \<lparr>request_body = ''Token'',
         data_sources = Some [(''/work/token.sol'', ''contract Token {}'')],
         data_functionHashes = Some []\<rparr>
        [''SWC-101'', ''SWC-101'']) = Some ''TypeError: Cannot read property'' \<and>
   FormatIssues
     \<lparr>request_body = ''Token'',
      data_sources = Some [(''/work/token.sol'', ''contract Token {}'')],
      data_functionHashes = Some []\<rparr>
     [''SWC-101'', ''SWC-101''] \<in> set (events (analyze bad_report_world demo_env debug_args)) \<and>
   outcome (analyze bad_report_world demo_env debug_args) = Exited 1 \<and>
   getReport bad_report_world
     (MxClient (JStr ''https://api.mythx.io'') (JStr ''0xabc'') (JStr ''secret''))
     ''uuid-1'' = Inr [''SWC-101'', ''SWC-101''] \<and>
   ConsoleLog Debug (inspect_issues bad_report_world [''SWC-101'', ''SWC-101''])
     \<in> set (events (analyze bad_report_world demo_env debug_args))"
  by (simp add: debug_args_def bad_report_run)
     (simp add: bad_report_world_def demo_world_def err_of_def)

subsection \<open>The order of the stages\<close>

lemma stage_of_step: "stage_of ev = (if is_call ev then step_stage (step_no ev) else None)"
  by (cases ev) (simp_all add: step_stage_def)

lemma stages_by_step:
  "List.map_filter stage_of evs = List.map_filter step_stage (map step_no (filter is_call evs))"
  by (induction evs) (simp_all add: stage_of_step split: option.split)

lemma step_no_bound: "step_no ev \<le> 14"
  by (cases ev) simp_all

lemma stages_upto:
  assumes "len \<le> 15"
  shows "prefix (remdups_adj (List.map_filter step_stage [0..<len])) pipeline"
proof -
  from assms have "len \<in> {0, 1, 2, 3, 4, 5, 6, 7} \<or> len \<in> {8, 9, 10, 11, 12, 13, 14, 15}"
    by (simp only: insert_iff empty_iff) arith
  then show ?thesis
    by (elim disjE insertE emptyE) (simp_all add: upt_lits step_stage_def pipeline_def)
qed

lemma stages_complete:
  assumes "n = 13 \<or> n = 15"
  shows "remdups_adj (List.map_filter step_stage [0..<n]) = pipeline"
  using assms by (auto simp: upt_lits step_stage_def pipeline_def)

lemma stage_entered:
  assumes "ev \<in> set (events r)" and "stage_of ev = Some st"
  shows "st \<in> set (stages r)"
proof -
  have "st \<in> set (List.map_filter stage_of (events r))"
    using assms by (induction "events r" arbitrary: r)
      (auto simp: List.map_filter_def intro!: image_eqI [where x = ev])
  then show ?thesis
    by (simp add: stages_def)
qed

lemma failed_run_last:
  assumes p: "protocol w a r" and out: "outcome r = Exited 1"
  shows "calls r \<noteq> [] \<and> thrown w a (last (calls r)) \<noteq> None"
proof -
  from p out have "ends_in_failure w a (rev (events r))"
    by (simp add: protocol_def)
  then obtain before ev err where
    "events r = before @ ev # (if ora_enabled w then [SpinnerFail] else [])
       @ [ConsoleLog Failure (chalk_red w err)]"
    "is_call ev" "thrown w a ev = Some err"
    using ends_in_failure_shape by blast
  then have "calls r = filter is_call before @ [ev]" "thrown w a ev \<noteq> None"
    by (simp_all add: calls_def catch_tail_calls)
  then show ?thesis
    by simp
qed

lemma first_call_made:
  assumes valid: "array_includes modes (mode a)" "array_includes formats (format a)"
    "at_index (positional a) 0 = JStr path"
  shows "ReadFileSync (path_resolve w (cwd w) path) \<in> set (calls (analyze w e a))"
proof -
  let ?r = "analyze w e a"
  have p: "protocol w a ?r"
    by (rule analyze_protocol)
  then have order: "map step_no (calls ?r) = [0..<length (calls ?r)]"
    by (simp add: protocol_def)
  have "calls ?r \<noteq> []"
  proof (cases "outcome ?r = Resolved")
    case True
    with p have "length (calls ?r) = 13 \<or> length (calls ?r) = 15"
      by (simp add: protocol_def)
    then show ?thesis
      by auto
  next
    case False
    with analyze_ends [OF valid] have "outcome ?r = Exited 1"
      by blast
    with failed_run_last [OF p] show ?thesis
      by blast
  qed
  then have first: "calls ?r ! 0 \<in> set (calls ?r)" "step_no (calls ?r ! 0) = 0"
    using in_order_nth [OF order, of 0] by simp_all
  then obtain p' where read: "ReadFileSync p' \<in> set (calls ?r)"
    using first_call [of "calls ?r ! 0"] by (auto simp: calls_def)
  then have "ReadFileSync p' \<in> set (events ?r)"
    by (simp add: calls_def)
  from read_of_argument [OF analyze_sourced this] valid(3)
  have "p' = path_resolve w (cwd w) path"
    by auto
  with read show ?thesis
    by simp
qed

text \<open>
  C5. A run with a valid mode, a valid format and a file argument starts with the read of
  the input file, and every call that returns before rendering is followed by the call at
  the next position of the \<open>try\<close> block, which enters the stage of that position. The
  calls are made in the order of the text, each once, and every call but the last
  returned, so the stages a run enters are an initial segment of the fixed sequence
  version detection, toolchain acquisition, import resolution, compilation,
  authentication, submission, polling, result retrieval, rendering. A run ends in one of
  three ways only: it resolves, having gone through all nine stages with no call
  throwing; or it exits with status 1, its last call threw, and the stages entered are
  exactly those up to the position of that call; or its arguments were refused and it
  called nothing. So the stages a run goes through depend only on which call, if any,
  throws: the tests of \<open>args.debug\<close> and of an empty list of issues lie inside a
  stage, and the mode only selects the parameters of the poll (C1).
\<close>

theorem stages_in_order:
  "prefix (stages (analyze w e a)) pipeline \<and>
   map step_no (calls (analyze w e a)) = [0..<length (calls (analyze w e a))] \<and>
   list_all (\<lambda>ev. thrown w a ev = None) (butlast (calls (analyze w e a))) \<and>
   (outcome (analyze w e a) = Resolved \<longrightarrow>
      stages (analyze w e a) = pipeline \<and>
      list_all (\<lambda>ev. thrown w a ev = None) (calls (analyze w e a))) \<and>
   (\<forall>path. array_includes modes (mode a) \<and> array_includes formats (format a) \<and>
      at_index (positional a) 0 = JStr path \<longrightarrow>
      ReadFileSync (path_resolve w (cwd w) path) \<in> set (calls (analyze w e a))) \<and>
   (\<forall>ev \<in> set (calls (analyze w e a)).
      thrown w a ev = None \<and> step_no ev < 12 \<longrightarrow>
      (\<exists>ev' \<in> set (calls (analyze w e a)).
         step_no ev' = Suc (step_no ev) \<and>
         stage_of ev' = step_stage (Suc (step_no ev)) \<and>
         step_stage (Suc (step_no ev)) \<in> Some ` set (stages (analyze w e a)))) \<and>
   (outcome (analyze w e a) = Resolved \<or>
    (outcome (analyze w e a) = Exited 1 \<and> calls (analyze w e a) \<noteq> [] \<and>
     thrown w a (last (calls (analyze w e a))) \<noteq> None \<and>
     stages (analyze w e a) =
       remdups_adj (List.map_filter step_stage [0..<Suc (step_no (last (calls (analyze w e a))))])) \<or>
    (calls (analyze w e a) = [] \<and>
     \<not> (array_includes modes (mode a) \<and> array_includes formats (format a) \<and>
        (\<exists>path. at_index (positional a) 0 = JStr path))))"
proof -
  let ?r = "analyze w e a"
  let ?cs = "calls ?r"
  have p: "protocol w a ?r"
    by (rule analyze_protocol)
  then have order: "map step_no ?cs = [0..<length ?cs]"
    and returned: "list_all (\<lambda>ev. thrown w a ev = None) (butlast ?cs)"
    by (simp_all add: protocol_def)
  have st: "stages ?r = remdups_adj (List.map_filter step_stage [0..<length ?cs])"
    using order by (simp add: stages_def stages_by_step calls_def)
  have "length ?cs \<le> 15"
  proof (cases "?cs = []")
    case True
    then show ?thesis by simp
  next
    case False
    then have "step_no (last ?cs) = length ?cs - 1"
      using in_order_last [OF order] by blast
    with step_no_bound [of "last ?cs"] show ?thesis
      by simp
  qed
  then have segment: "prefix (stages ?r) pipeline"
    using st stages_upto by simp
  have complete: "stages ?r = pipeline \<and> list_all (\<lambda>ev. thrown w a ev = None) ?cs"
    if "outcome ?r = Resolved"
    using p that st stages_complete by (simp add: protocol_def)
  have start: "ReadFileSync (path_resolve w (cwd w) path) \<in> set ?cs"
    if "array_includes modes (mode a) \<and> array_includes formats (format a) \<and>
      at_index (positional a) 0 = JStr path" for path
    using that first_call_made by blast
  have progress: "\<exists>ev' \<in> set ?cs. step_no ev' = Suc (step_no ev) \<and>
      stage_of ev' = step_stage (Suc (step_no ev)) \<and>
      step_stage (Suc (step_no ev)) \<in> Some ` set (stages ?r)"
    if "ev \<in> set ?cs" and "thrown w a ev = None \<and> step_no ev < 12" for ev
  proof -
    from that(2) have "thrown w a ev = None" "step_no ev < 12"
      by simp_all
    from next_call [OF p that(1) this] obtain ev' where
      ev': "ev' \<in> set ?cs" "step_no ev' = Suc (step_no ev)"
      by blast
    then have call: "is_call ev'" "ev' \<in> set (events ?r)"
      by (simp_all add: calls_def)
    then have same: "stage_of ev' = step_stage (Suc (step_no ev))"
      using ev'(2) by (simp add: stage_of_step)
    then obtain st where entered: "stage_of ev' = Some st"
      by (auto simp: step_stage_def split: if_splits)
    from stage_entered [OF call(2) entered] have "st \<in> set (stages ?r)" .
    then have "Some st \<in> Some ` set (stages ?r)"
      by (rule imageI)
    with same entered have "step_stage (Suc (step_no ev)) \<in> Some ` set (stages ?r)"
      by simp
    with ev' same show ?thesis
      by blast
  qed
  have ends: "outcome ?r = Resolved \<or>
      (outcome ?r = Exited 1 \<and> ?cs \<noteq> [] \<and> thrown w a (last ?cs) \<noteq> None \<and>
       stages ?r = remdups_adj (List.map_filter step_stage [0..<Suc (step_no (last ?cs))])) \<or>
      (?cs = [] \<and>
       \<not> (array_includes modes (mode a) \<and> array_includes formats (format a) \<and>
          (\<exists>path. at_index (positional a) 0 = JStr path)))"
  proof (cases "array_includes modes (mode a) \<and> array_includes formats (format a) \<and>
      (\<exists>path. at_index (positional a) 0 = JStr path)")
    case True
    then have "outcome ?r = Resolved \<or> outcome ?r = Exited 1"
      using analyze_ends by blast
    then show ?thesis
    proof
      assume "outcome ?r = Resolved"
      then show ?thesis
        by simp
    next
      assume failed: "outcome ?r = Exited 1"
      from failed_run_last [OF p failed]
      have last_threw: "?cs \<noteq> []" "thrown w a (last ?cs) \<noteq> None"
        by simp_all
      from in_order_last [OF order] last_threw(1)
      have "Suc (step_no (last ?cs)) = length ?cs"
        by simp
      with st have "stages ?r =
          remdups_adj (List.map_filter step_stage [0..<Suc (step_no (last ?cs))])"
        by simp
      with failed last_threw show ?thesis
        by blast
    qed
  next
    case False
    with analyze_refuses [OF False] show ?thesis
      by blast
  qed
  show ?thesis
    using segment order returned complete start progress ends by blast
qed

theorem stages_in_order_witness:
  "outcome (analyze demo_world demo_env demo_args) = Resolved \<and>
   stages (analyze demo_world demo_env demo_args) = pipeline \<and>
   prefix (stages (analyze bad_pragma_world demo_env demo_args)) pipeline \<and>
   stages (analyze bad_pragma_world demo_env demo_args) = [VersionDetection] \<and>
   ReadFileSync ''/work/token.sol'' \<in> set (calls (analyze bad_pragma_world demo_env demo_args)) \<and>
   (\<exists>ev' \<in> set (calls (analyze bad_pragma_world demo_env demo_args)). step_no ev' = 1)"
proof -
  let ?bad = "analyze bad_pragma_world demo_env demo_args"
  have completed: "outcome (analyze demo_world demo_env demo_args) = Resolved"
    by (simp add: demo_run)
  have one: "stages ?bad = [VersionDetection]"
    by (simp add: bad_pragma_run stages_def)
  note bad = stages_in_order [of bad_pragma_world demo_env demo_args]
  have valid: "array_includes modes (mode demo_args) \<and> array_includes formats (format demo_args) \<and>
      at_index (positional demo_args) 0 = JStr ''token.sol''"
    by (simp add: demo_args_def modes_def formats_def)
  have "path_resolve bad_pragma_world (cwd bad_pragma_world) ''token.sol'' = ''/work/token.sol''"
    by (simp add: bad_pragma_world_def demo_world_def)
  with bad valid have read: "ReadFileSync ''/work/token.sol'' \<in> set (calls ?bad)"
    by metis
  have "thrown bad_pragma_world demo_args (ReadFileSync ''/work/token.sol'') = None \<and>
      step_no (ReadFileSync ''/work/token.sol'') < 12"
    by (simp add: bad_pragma_world_def demo_world_def err_of_def)
  with bad read have "\<exists>ev' \<in> set (calls ?bad).
      step_no ev' = Suc (step_no (ReadFileSync ''/work/token.sol''))"
    by blast
  then have next_one: "\<exists>ev' \<in> set (calls ?bad). step_no ev' = 1"
    by simp
  from completed stages_in_order [of demo_world demo_env demo_args]
  have "stages (analyze demo_world demo_env demo_args) = pipeline"
    by blast
  moreover from bad have "prefix (stages ?bad) pipeline"
    by blast
  ultimately show ?thesis
    using completed one read next_one by blast
qed

subsection \<open>The credentials in use\<close>

lemma render_output_credentials:
  "list_all (uses_credentials w url ad pw) (trace s) \<Longrightarrow>
   list_all (uses_credentials w url ad pw) (events (render_output w a file input cd data iss s))"
  by (cases s) (simp add: render_output_def lits split: sum.split)

lemma retrieve_results_credentials:
  "list_all (uses_credentials w url ad pw) (trace s) \<Longrightarrow>
   list_all (uses_credentials w url ad pw)
     (events (retrieve_results w a file input cd data mx uuid s))"
  by (cases s) (simp add: retrieve_results_def lits render_output_credentials split: sum.split)

lemma await_analysis_credentials:
  "list_all (uses_credentials w url ad pw) (trace s) \<Longrightarrow>
   list_all (uses_credentials w url ad pw)
     (events (await_analysis w a file input cd data mx uuid s))"
  by (cases s)
     (simp add: await_analysis_def lits retrieve_results_credentials
        split: sum.split prod.split)

lemma submit_data_credentials:
  "list_all (uses_credentials w url ad pw) (trace s) \<Longrightarrow>
   list_all (uses_credentials w url ad pw) (events (submit_data w a file p sl input cd mx s))"
  by (cases s) (simp add: submit_data_def lits await_analysis_credentials split: sum.split)

lemma authenticate_user_credentials:
  "list_all (uses_credentials w url ad pw) (trace s) \<Longrightarrow>
   list_all (uses_credentials w url ad pw)
     (events (authenticate_user w a url ad pw file p sl input cd s))"
  by (cases s)
     (simp add: authenticate_user_def lits submit_data_credentials split: sum.split)

lemma compile_sources_credentials:
  "list_all (uses_credentials w url ad pw) (trace s) \<Longrightarrow>
   list_all (uses_credentials w url ad pw)
     (events (compile_sources w a url ad pw file p v snap rs s))"
  by (cases s)
     (simp add: compile_sources_def lits authenticate_user_credentials split: sum.split)

lemma resolve_imports_credentials:
  "list_all (uses_credentials w url ad pw) (trace s) \<Longrightarrow>
   list_all (uses_credentials w url ad pw)
     (events (resolve_imports w a url ad pw rsv file p v snap s))"
  by (cases s)
     (simp add: resolve_imports_def lits compile_sources_credentials split: sum.split)

lemma load_solc_credentials:
  "list_all (uses_credentials w url ad pw) (trace s) \<Longrightarrow>
   list_all (uses_credentials w url ad pw) (events (load_solc w a url ad pw rsv file p v s))"
  by (cases s)
     (simp add: load_solc_def lits resolve_imports_credentials split: sum.split prod.split)

lemma detect_version_credentials:
  "list_all (uses_credentials w url ad pw) (trace s) \<Longrightarrow>
   list_all (uses_credentials w url ad pw)
     (events (detect_version w a url ad pw rsv file p code s))"
  by (cases s) (simp add: detect_version_def lits load_solc_credentials split: sum.split)

lemma read_input_credentials:
  "list_all (uses_credentials w url ad pw) (trace s) \<Longrightarrow>
   list_all (uses_credentials w url ad pw) (events (read_input w a url ad pw rsv file p s))"
  by (cases s) (simp add: read_input_def lits detect_version_credentials split: sum.split)

lemma analyze_credentials:
  "list_all (uses_credentials w (apiUrl e) (fst (credentials e)) (snd (credentials e)))
     (events (analyze w e a))"
  by (simp add: analyze_def lits read_input_credentials split: jsval.split prod.split)

lemma seventh_call: "is_call ev \<Longrightarrow> step_no ev = 6 \<Longrightarrow> \<exists>url ad pw. ev = Initialize url ad pw"
  by (cases ev) simp_all

lemma eighth_call: "is_call ev \<Longrightarrow> step_no ev = 7 \<Longrightarrow> \<exists>mx. ev = Authenticate mx"
  by (cases ev) simp_all

text \<open>
  C8. When \<open>env.ethAddress\<close> or \<open>env.password\<close> is falsy, the credentials in use are
  the trial address and the password \<open>trial\<close>: every \<open>client.initialize\<close> of the run
  receives them, and the client that authenticates is the one initialized with them. No
  error is raised for the missing credentials: once compilation has returned, the client
  is initialized with the trial credentials, and once that has returned,
  \<open>client.authenticate\<close> is called.
\<close>

theorem trial_credentials:
  assumes "\<not> truthy (ethAddress e) \<or> \<not> truthy (password e)"
  shows "credentials e = (JStr ''0x0000000000000000000000000000000000000000'', JStr ''trial'') \<and>
         (\<forall>url ad pw. Initialize url ad pw \<in> set (events (analyze w e a)) \<longrightarrow>
            url = apiUrl e \<and> ad = JStr ''0x0000000000000000000000000000000000000000'' \<and> pw = JStr ''trial'') \<and>
         (\<forall>mx. Authenticate mx \<in> set (events (analyze w e a)) \<longrightarrow>
            initialize w (apiUrl e) (JStr ''0x0000000000000000000000000000000000000000'') (JStr ''trial'') = Inr mx) \<and>
         (\<forall>input snap p name cd.
            GetCompiledContracts input snap p name \<in> set (events (analyze w e a)) \<and>
            getCompiledContracts w input snap p name = Inr cd \<longrightarrow>
            Initialize (apiUrl e) (JStr ''0x0000000000000000000000000000000000000000'') (JStr ''trial'') \<in> set (events (analyze w e a))) \<and>
         (\<forall>mx. Initialize (apiUrl e) (JStr ''0x0000000000000000000000000000000000000000'') (JStr ''trial'') \<in> set (events (analyze w e a)) \<and>
            initialize w (apiUrl e) (JStr ''0x0000000000000000000000000000000000000000'') (JStr ''trial'') = Inr mx \<longrightarrow>
            Authenticate mx \<in> set (events (analyze w e a)))"
proof -
  let ?r = "analyze w e a"
  have creds: "credentials e = (JStr ''0x0000000000000000000000000000000000000000'', JStr ''trial'')"
    using assms by (auto simp: credentials_def)
  have all: "list_all (uses_credentials w (apiUrl e) (JStr ''0x0000000000000000000000000000000000000000'') (JStr ''trial'')) (events ?r)"
    using analyze_credentials [of w e a] creds by simp
  have init: "url = apiUrl e \<and> ad = JStr ''0x0000000000000000000000000000000000000000'' \<and> pw = JStr ''trial''"
    if "Initialize url ad pw \<in> set (events ?r)" for url ad pw
    using all that by (auto simp: list_all_iff)
  have auth: "initialize w (apiUrl e) (JStr ''0x0000000000000000000000000000000000000000'') (JStr ''trial'') = Inr mx"
    if "Authenticate mx \<in> set (events ?r)" for mx
    using all that by (auto simp: list_all_iff)
  have p: "protocol w a ?r"
    by (rule analyze_protocol)
  have goes_on: "Initialize (apiUrl e) (JStr ''0x0000000000000000000000000000000000000000'') (JStr ''trial'') \<in> set (events ?r)"
    if "GetCompiledContracts input snap p name \<in> set (events ?r)"
      and "getCompiledContracts w input snap p name = Inr cd" for input snap p name cd
  proof -
    let ?ev = "GetCompiledContracts input snap p name"
    have "?ev \<in> set (calls ?r)" "thrown w a ?ev = None" "step_no ?ev < 12"
      using that by (simp_all add: calls_def err_of_def)
    from next_call [OF p this] obtain ev' where
      "ev' \<in> set (calls ?r)" "step_no ev' = 6"
      by auto
    then obtain url ad pw where "Initialize url ad pw \<in> set (events ?r)"
      using seventh_call [of ev'] by (auto simp: calls_def)
    with init show ?thesis
      by blast
  qed
  have authenticates: "Authenticate mx \<in> set (events ?r)"
    if "Initialize (apiUrl e) (JStr ''0x0000000000000000000000000000000000000000'') (JStr ''trial'') \<in> set (events ?r)"
      and "initialize w (apiUrl e) (JStr ''0x0000000000000000000000000000000000000000'') (JStr ''trial'') = Inr mx" for mx
  proof -
    let ?ev = "Initialize (apiUrl e) (JStr ''0x0000000000000000000000000000000000000000'') (JStr ''trial'')"
    have "?ev \<in> set (calls ?r)" "thrown w a ?ev = None" "step_no ?ev < 12"
      using that by (simp_all add: calls_def err_of_def)
    from next_call [OF p this] obtain ev' where
      "ev' \<in> set (calls ?r)" "step_no ev' = 7"
      by auto
    then obtain mx' where mx': "Authenticate mx' \<in> set (events ?r)"
      using eighth_call [of ev'] by (auto simp: calls_def)
    with auth [OF mx'] that(2) show ?thesis
      by simp
  qed
  show ?thesis
    using creds init auth goes_on authenticates by blast
qed

theorem trial_credentials_witness:
  "\<not> truthy (password trial_env) \<and>
   credentials trial_env = (JStr ''0x0000000000000000000000000000000000000000'', JStr ''trial'') \<and>
   Authenticate (MxClient (JStr ''https://api.mythx.io'') (JStr ''0x0000000000000000000000000000000000000000'') (JStr ''trial''))
     \<in> set (events (analyze demo_world trial_env demo_args))"
proof -
  let ?r = "analyze demo_world trial_env demo_args"
  have missing: "\<not> truthy (ethAddress trial_env) \<or> \<not> truthy (password trial_env)"
    by (simp add: trial_env_def)
  note trial = trial_credentials [OF missing, of demo_world demo_args]
  have compiled: "GetCompiledContracts
      \<lparr>input_sources = [(''/work/token.sol'', ''contract Token {}'')], input_settings = ''{}''\<rparr>
      (Snapshot ''0.5.7'') ''/work/token.sol'' JUndefined \<in> set (events ?r)"
    by (simp add: demo_defs trial_env_def)
  have returned: "getCompiledContracts demo_world
      \<lparr>input_sources = [(''/work/token.sol'', ''contract Token {}'')], input_settings = ''{}''\<rparr>
      (Snapshot ''0.5.7'') ''/work/token.sol'' JUndefined =
      Inr \<lparr>contractName = ''Token'', functionHashes = [], compiled_rest = []\<rparr>"
    by (simp add: demo_world_def)
  from trial compiled returned
  have init: "Initialize (apiUrl trial_env) (JStr ''0x0000000000000000000000000000000000000000'') (JStr ''trial'') \<in> set (events ?r)"
    by blast
  have made: "initialize demo_world (apiUrl trial_env) (JStr ''0x0000000000000000000000000000000000000000'') (JStr ''trial'') =
      Inr (MxClient (apiUrl trial_env) (JStr ''0x0000000000000000000000000000000000000000'') (JStr ''trial''))"
    by (simp add: demo_world_def)
  from trial init made
  have auth: "Authenticate (MxClient (apiUrl trial_env) (JStr ''0x0000000000000000000000000000000000000000'') (JStr ''trial''))
      \<in> set (events ?r)"
    by blast
  from trial have creds: "credentials trial_env = (JStr ''0x0000000000000000000000000000000000000000'', JStr ''trial'')"
    by blast
  have url: "apiUrl trial_env = JStr ''https://api.mythx.io''"
    by (simp add: trial_env_def)
  have "\<not> truthy (password trial_env)"
    by (simp add: trial_env_def)
  then show ?thesis
    using creds auth unfolding url by blast
qed

subsection \<open>Retrieval after polling\<close>

lemma render_output_polled:
  "polled w (rev (trace s)) \<Longrightarrow>
   polled w (rev (events (render_output w a file input cd data iss s)))"
  by (cases s) (simp add: render_output_def lits split: sum.split)

lemma retrieve_results_polled:
  "polled w (rev (trace s)) \<Longrightarrow> list_ex (resolved_poll w mx uuid) (trace s) \<Longrightarrow>
   polled w (rev (events (retrieve_results w a file input cd data mx uuid s)))"
  by (cases s) (simp add: retrieve_results_def lits render_output_polled split: sum.split)

lemma await_analysis_polled:
  "polled w (rev (trace s)) \<Longrightarrow>
   polled w (rev (events (await_analysis w a file input cd data mx uuid s)))"
  by (cases s)
     (simp add: await_analysis_def lits retrieve_results_polled split: sum.split prod.split)

lemma submit_data_polled:
  "polled w (rev (trace s)) \<Longrightarrow>
   polled w (rev (events (submit_data w a file p sl input cd mx s)))"
  by (cases s) (simp add: submit_data_def lits await_analysis_polled split: sum.split)

lemma authenticate_user_polled:
  "polled w (rev (trace s)) \<Longrightarrow>
   polled w (rev (events (authenticate_user w a url ad pw file p sl input cd s)))"
  by (cases s) (simp add: authenticate_user_def lits submit_data_polled split: sum.split)

lemma compile_sources_polled:
  "polled w (rev (trace s)) \<Longrightarrow>
   polled w (rev (events (compile_sources w a url ad pw file p v snap rs s)))"
  by (cases s) (simp add: compile_sources_def lits authenticate_user_polled split: sum.split)

lemma resolve_imports_polled:
  "polled w (rev (trace s)) \<Longrightarrow>
   polled w (rev (events (resolve_imports w a url ad pw rsv file p v snap s)))"
  by (cases s) (simp add: resolve_imports_def lits compile_sources_polled split: sum.split)

lemma load_solc_polled:
  "polled w (rev (trace s)) \<Longrightarrow>
   polled w (rev (events (load_solc w a url ad pw rsv file p v s)))"
  by (cases s) (simp add: load_solc_def lits resolve_imports_polled split: sum.split prod.split)

lemma detect_version_polled:
  "polled w (rev (trace s)) \<Longrightarrow>
   polled w (rev (events (detect_version w a url ad pw rsv file p code s)))"
  by (cases s) (simp add: detect_version_def lits load_solc_polled split: sum.split)

lemma read_input_polled:
  "polled w (rev (trace s)) \<Longrightarrow>
   polled w (rev (events (read_input w a url ad pw rsv file p s)))"
  by (cases s) (simp add: read_input_def lits detect_version_polled split: sum.split)

lemma analyze_polled: "polled w (rev (events (analyze w e a)))"
  by (simp add: analyze_def lits read_input_polled split: jsval.split prod.split)

lemma polled_tail: "polled w (ev # earlier) \<Longrightarrow> polled w earlier"
  by (cases ev) simp_all

lemma resolved_poll_shape:
  assumes "resolved_poll w mx uuid ev"
  obtains d t where "ev = AwaitAnalysisFinish mx uuid d t"
    "awaitAnalysisFinish w mx uuid d t = Inr ()"
  using assms by (cases ev) simp_all

lemma report_after_poll:
  assumes "polled w (rev evs)" and "GetReport mx uuid \<in> set evs"
  shows "\<exists>before after d t. evs = before @ GetReport mx uuid # after \<and>
           AwaitAnalysisFinish mx uuid d t \<in> set before \<and>
           awaitAnalysisFinish w mx uuid d t = Inr ()"
  using assms
proof (induction evs rule: rev_induct)
  case Nil
  then show ?case by simp
next
  case (snoc x xs)
  from snoc.prems(1) have tail: "polled w (rev xs)"
    using polled_tail by simp
  show ?case
  proof (cases "GetReport mx uuid \<in> set xs")
    case True
    from snoc.IH [OF tail True] obtain before after d t where
      "xs = before @ GetReport mx uuid # after"
      "AwaitAnalysisFinish mx uuid d t \<in> set before"
      "awaitAnalysisFinish w mx uuid d t = Inr ()"
      by blast
    then have "xs @ [x] = before @ GetReport mx uuid # (after @ [x])"
      by simp
    with \<open>AwaitAnalysisFinish mx uuid d t \<in> set before\<close>
      \<open>awaitAnalysisFinish w mx uuid d t = Inr ()\<close>
    show ?thesis
      by blast
  next
    case False
    with snoc.prems(2) have x: "x = GetReport mx uuid"
      by simp
    with snoc.prems(1) have "list_ex (resolved_poll w mx uuid) xs"
      by (simp add: list_ex_iff)
    then obtain ev where "ev \<in> set xs" "resolved_poll w mx uuid ev"
      by (auto simp: list_ex_iff)
    then obtain d t where "AwaitAnalysisFinish mx uuid d t \<in> set xs"
      "awaitAnalysisFinish w mx uuid d t = Inr ()"
      using resolved_poll_shape by blast
    with x have "xs @ [x] = xs @ GetReport mx uuid # []
        \<and> AwaitAnalysisFinish mx uuid d t \<in> set xs
        \<and> awaitAnalysisFinish w mx uuid d t = Inr ()"
      by simp
    then show ?thesis
      by blast
  qed
qed

lemma no_later_call:
  assumes "protocol w a r" and "ev \<in> set (events r)" and "thrown w a ev = Some err"
    and "ev' \<in> set (events r)" and "is_call ev'"
  shows "step_no ev' \<le> step_no ev"
proof -
  from failed_call_last(2) [OF assms(1-3)] obtain before where
    shape: "events r = before @ ev # (if ora_enabled w then [SpinnerFail] else [])
      @ [ConsoleLog Failure (chalk_red w err)]"
    and earlier: "\<forall>x \<in> set before. is_call x \<longrightarrow> step_no x < step_no ev"
    by blast
  from assms(4,5) shape have "ev' \<in> set before \<or> ev' = ev"
    by (auto split: if_splits)
  with earlier assms(5) show ?thesis
    by auto
qed

text \<open>
  C4. When \<open>client.awaitAnalysisFinish\<close> rejects, as it does for a job that stays
  pending past the timeout, the run exits with status 1 and \<open>client.getReport\<close> is
  never called. Whenever \<open>client.getReport\<close> is called for a job, a poll for the same
  job of the same client stands before it in the run, and that poll resolved.
\<close>

theorem report_only_after_poll:
  "(\<forall>mx uuid d t err.
      AwaitAnalysisFinish mx uuid d t \<in> set (events (analyze w e a)) \<and>
      awaitAnalysisFinish w mx uuid d t = Inl err \<longrightarrow>
      outcome (analyze w e a) = Exited 1 \<and>
      (\<forall>mx' uuid'. GetReport mx' uuid' \<notin> set (events (analyze w e a)))) \<and>
   (\<forall>mx uuid.
      GetReport mx uuid \<in> set (events (analyze w e a)) \<longrightarrow>
      (\<exists>before after d t.
         events (analyze w e a) = before @ GetReport mx uuid # after \<and>
         AwaitAnalysisFinish mx uuid d t \<in> set before \<and>
         awaitAnalysisFinish w mx uuid d t = Inr ()))"
proof (intro conjI allI impI)
  fix mx uuid d t err
  assume poll: "AwaitAnalysisFinish mx uuid d t \<in> set (events (analyze w e a)) \<and>
    awaitAnalysisFinish w mx uuid d t = Inl err"
  then have thrown: "thrown w a (AwaitAnalysisFinish mx uuid d t) = Some err"
    by (simp add: err_of_def)
  from poll have called: "AwaitAnalysisFinish mx uuid d t \<in> set (events (analyze w e a))"
    by simp
  show "outcome (analyze w e a) = Exited 1"
    using failed_call_last(1) [OF analyze_protocol called thrown] .
  fix mx' uuid'
  show "GetReport mx' uuid' \<notin> set (events (analyze w e a))"
  proof
    assume "GetReport mx' uuid' \<in> set (events (analyze w e a))"
    from no_later_call [OF analyze_protocol called thrown this]
    show False
      by simp
  qed
next
  fix mx uuid
  assume "GetReport mx uuid \<in> set (events (analyze w e a))"
  with analyze_polled [of w e a] show
    "\<exists>before after d t.
       events (analyze w e a) = before @ GetReport mx uuid # after \<and>
       AwaitAnalysisFinish mx uuid d t \<in> set before \<and>
       awaitAnalysisFinish w mx uuid d t = Inr ()"
    by (rule report_after_poll)
qed

theorem report_only_after_poll_witness:
  "AwaitAnalysisFinish
     (MxClient (JStr ''https://api.mythx.io'') (JStr ''0xabc'') (JStr ''secret''))
     ''uuid-1'' 20000 180000 \<in> set (events (analyze pending_world demo_env demo_args)) \<and>
   outcome (analyze pending_world demo_env demo_args) = Exited 1 \<and>
   (\<forall>mx uuid. GetReport mx uuid \<notin> set (events (analyze pending_world demo_env demo_args))) \<and>
   GetReport (MxClient (JStr ''https://api.mythx.io'') (JStr ''0xabc'') (JStr ''secret''))
     ''uuid-1'' \<in> set (events (analyze demo_world demo_env demo_args)) \<and>
   (\<exists>d t. AwaitAnalysisFinish
      (MxClient (JStr ''https://api.mythx.io'') (JStr ''0xabc'') (JStr ''secret''))
      ''uuid-1'' d t \<in> set (events (analyze demo_world demo_env demo_args)))"
proof -
  let ?mx = "MxClient (JStr ''https://api.mythx.io'') (JStr ''0xabc'') (JStr ''secret'')"
  have polled: "AwaitAnalysisFinish ?mx ''uuid-1'' 20000 180000
      \<in> set (events (analyze pending_world demo_env demo_args))"
    by (simp add: demo_defs pending_world_def)
  have rejected: "awaitAnalysisFinish pending_world ?mx ''uuid-1'' 20000 180000 =
      Inl ''Error: User or default timeout reached''"
    by (simp add: pending_world_def demo_world_def)
  from report_only_after_poll [of pending_world demo_env demo_args] polled rejected
  have timed_out: "outcome (analyze pending_world demo_env demo_args) = Exited 1 \<and>
      (\<forall>mx uuid. GetReport mx uuid \<notin> set (events (analyze pending_world demo_env demo_args)))"
    by blast
  have retrieved: "GetReport ?mx ''uuid-1'' \<in> set (events (analyze demo_world demo_env demo_args))"
    by (simp add: demo_run)
  from report_only_after_poll [of demo_world demo_env demo_args] retrieved
  obtain before after d t where
    "events (analyze demo_world demo_env demo_args) = before @ GetReport ?mx ''uuid-1'' # after"
    "AwaitAnalysisFinish ?mx ''uuid-1'' d t \<in> set before"
    by blast
  then have "\<exists>d t. AwaitAnalysisFinish ?mx ''uuid-1'' d t
      \<in> set (events (analyze demo_world demo_env demo_args))"
    by auto
  with polled timed_out retrieved show ?thesis
    by blast
qed

subsection \<open>The result of a resolved run\<close>






















subsection \<open>The debug flag\<close>

lemma map_filter_append:
  "List.map_filter f (xs @ ys) = List.map_filter f xs @ List.map_filter f ys"
  by (simp add: List.map_filter_def)

lemma same_result_lit:
  "same_result \<lparr>events = evs', outcome = out'\<rparr> \<lparr>events = evs, outcome = out\<rparr> =
     (List.map_filter shown evs' = List.map_filter shown evs \<and> out' = out)"
  by (simp add: same_result_def same_shown_def)

lemmas same = same_result_lit same_shown_def map_filter_append





















end
